theory Spec2Isabelle
  imports Complex_Main
begin

section \<open>Errors\<close>

text \<open>
  Every way in which the Python code stops with an exception is a value of \<open>error\<close>.
  PyTorch raises \<open>RuntimeError\<close> for every shape violation; the argument records which
  operation refused its operands, so that a failure at a skip-connection addition can be
  told apart from a failure inside a convolution or a reshape.
\<close>

datatype torch_failure =
    BroadcastMismatch
  | ConvInput
  | LinearInput
  | MatmulInput
  | ReshapeInvalid
  | PermuteInvalid
  | UpsampleInput
  | StackInput
  | NegativeOrEmptySize

datatype error =
    AssertionError
  | ZeroDivisionError
  | ValueError
  | IndexError
  | RuntimeError torch_failure

definition and_then :: "error + 'a \<Rightarrow> ('a \<Rightarrow> error + 'b) \<Rightarrow> error + 'b" where
  "and_then r f = (case r of Inl e \<Rightarrow> Inl e | Inr v \<Rightarrow> f v)"

section \<open>Tensors\<close>

text \<open>
  A tensor is its size vector and its elements in row-major (contiguous) order.
  Elements are polymorphic: the layout operations (reshape, permute, stack, split) work
  for every element type, the arithmetic ones are used at type \<open>real\<close>.
\<close>

record 'a tensor =
  shape :: "nat list"
  data :: "'a list"

fun indices :: "nat list \<Rightarrow> nat list list" where
  "indices [] = [[]]"
| "indices (n # ns) = concat (map (\<lambda>i. map ((#) i) (indices ns)) [0..<n])"

fun flat_index :: "nat list \<Rightarrow> nat list \<Rightarrow> nat" where
  "flat_index (n # ns) (i # js) = i * prod_list ns + flat_index ns js"
| "flat_index _ _ = 0"

definition elem_at :: "'a tensor \<Rightarrow> nat list \<Rightarrow> 'a" where
  "elem_at t idx = data t ! flat_index (shape t) idx"

definition build :: "nat list \<Rightarrow> (nat list \<Rightarrow> 'a) \<Rightarrow> 'a tensor" where
  "build s f = \<lparr>shape = s, data = map f (indices s)\<rparr>"

definition tensor_map :: "('a \<Rightarrow> 'b) \<Rightarrow> 'a tensor \<Rightarrow> 'b tensor" where
  "tensor_map f t = \<lparr>shape = shape t, data = map f (data t)\<rparr>"


definition build4 :: "nat \<Rightarrow> nat \<Rightarrow> nat \<Rightarrow> nat \<Rightarrow> (nat \<Rightarrow> nat \<Rightarrow> nat \<Rightarrow> nat \<Rightarrow> 'a) \<Rightarrow> 'a tensor" where
  "build4 B C H W f = build [B, C, H, W] (\<lambda>idx. f (idx ! 0) (idx ! 1) (idx ! 2) (idx ! 3))"

definition at4 :: "'a tensor \<Rightarrow> nat \<Rightarrow> nat \<Rightarrow> nat \<Rightarrow> nat \<Rightarrow> 'a" where
  "at4 t b c y x = elem_at t [b, c, y, x]"

text \<open>\<open>a, b, c, d = x.size()\<close>: unpacking needs exactly four dimensions.\<close>

definition size4 :: "'a tensor \<Rightarrow> error + (nat \<times> nat \<times> nat \<times> nat)" where
  "size4 t = (case shape t of [b, c, h, w] \<Rightarrow> Inr (b, c, h, w) | _ \<Rightarrow> Inl ValueError)"

text \<open>
  \<open>x.reshape(d1, ..., dn)\<close>: the elements stay in their row-major order and only the size
  vector changes. \<open>None\<close> stands for the one dimension that may be written \<open>-1\<close> and is
  inferred from the number of elements.
\<close>

definition reshape :: "nat option list \<Rightarrow> 'a tensor \<Rightarrow> error + 'a tensor" where
  "reshape req t =
     (let n = prod_list (shape t);
          known = prod_list (map (\<lambda>d. case d of None \<Rightarrow> 1 | Some k \<Rightarrow> k) req);
          holes = length (filter (\<lambda>d. d = None) req)
      in if 1 < holes then Inl (RuntimeError ReshapeInvalid)
         else if holes = 1 then
           (if known = 0 \<or> n mod known \<noteq> 0 then Inl (RuntimeError ReshapeInvalid)
            else Inr \<lparr>shape = map (\<lambda>d. case d of None \<Rightarrow> n div known | Some k \<Rightarrow> k) req,
                      data = data t\<rparr>)
         else if known \<noteq> n then Inl (RuntimeError ReshapeInvalid)
         else Inr \<lparr>shape = map (\<lambda>d. case d of None \<Rightarrow> 0 | Some k \<Rightarrow> k) req, data = data t\<rparr>)"

text \<open>
  \<open>x.permute(p0, ..., pn)\<close>: dimension \<open>j\<close> of the result is dimension \<open>pj\<close> of the
  operand, so the element at index \<open>idx\<close> of the result is the operand's element at the
  index that has \<open>idx ! j\<close> in position \<open>pj\<close>. The result is written out in row-major
  order, which is what \<open>.contiguous()\<close> and every later \<open>reshape\<close> read.
\<close>

definition unpermute :: "nat list \<Rightarrow> nat list \<Rightarrow> nat list" where
  "unpermute perm idx = fold (\<lambda>(p, i) acc. acc[p := i]) (zip perm idx) (replicate (length perm) 0)"

definition permute :: "nat list \<Rightarrow> 'a tensor \<Rightarrow> error + 'a tensor" where
  "permute perm t =
     (if sort perm \<noteq> [0..<length (shape t)] then Inl (RuntimeError PermuteInvalid)
      else Inr (build (map (\<lambda>p. shape t ! p) perm) (\<lambda>idx. elem_at t (unpermute perm idx))))"

text \<open>\<open>x.transpose(-2, -1)\<close>.\<close>

definition transpose_last2 :: "'a tensor \<Rightarrow> error + 'a tensor" where
  "transpose_last2 t =
     (let r = length (shape t)
      in if r < 2 then Inl IndexError else permute ([0..<r - 2] @ [r - 1, r - 2]) t)"

text \<open>
  \<open>a + b\<close> on tensors, with PyTorch's broadcasting: the size vectors are aligned at the
  right, and two sizes go together when they are equal or one of them is 1.
\<close>

definition broadcast_dim :: "nat \<Rightarrow> nat \<Rightarrow> nat option" where
  "broadcast_dim a b =
     (if a = b then Some a else if a = 1 then Some b else if b = 1 then Some a else None)"

fun broadcast_shapes :: "nat list \<Rightarrow> nat list \<Rightarrow> nat list option" where
  "broadcast_shapes [] [] = Some []"
| "broadcast_shapes (a # as) (b # bs) =
     (case broadcast_dim a b of
        None \<Rightarrow> None
      | Some d \<Rightarrow> (case broadcast_shapes as bs of None \<Rightarrow> None | Some ds \<Rightarrow> Some (d # ds)))"
| "broadcast_shapes _ _ = None"

definition pad_shape :: "nat \<Rightarrow> nat list \<Rightarrow> nat list" where
  "pad_shape r s = replicate (r - length s) 1 @ s"

definition broadcast_index :: "nat list \<Rightarrow> nat list \<Rightarrow> nat list" where
  "broadcast_index s idx = map2 (\<lambda>n i. if n = 1 then 0 else i) s idx"

definition tensor_add :: "real tensor \<Rightarrow> real tensor \<Rightarrow> error + real tensor" where
  "tensor_add a b =
     (let r = max (length (shape a)) (length (shape b));
          sa = pad_shape r (shape a);
          sb = pad_shape r (shape b)
      in case broadcast_shapes sa sb of
           None \<Rightarrow> Inl (RuntimeError BroadcastMismatch)
         | Some s \<Rightarrow>
             Inr (build s (\<lambda>idx. data a ! flat_index sa (broadcast_index sa idx)
                                + data b ! flat_index sb (broadcast_index sb idx))))"

text \<open>
  \<open>torch.matmul\<close> on operands of rank two or more: a matrix product over the last two
  dimensions for every index of the leading ones. The leading dimensions of the two
  operands are equal wherever the attention block multiplies.
\<close>

definition matmul :: "real tensor \<Rightarrow> real tensor \<Rightarrow> error + real tensor" where
  "matmul a b =
     (case (rev (shape a), rev (shape b)) of
        (k # n # sa, m # k' # sb) \<Rightarrow>
          if k \<noteq> k' \<or> sa \<noteq> sb then Inl (RuntimeError MatmulInput)
          else Inr (build (rev sa @ [n, m])
                 (\<lambda>idx. let pre = take (length sa) idx;
                             i = idx ! length sa;
                             j = idx ! Suc (length sa)
                         in \<Sum>l\<leftarrow>[0..<k]. elem_at a (pre @ [i, l]) * elem_at b (pre @ [l, j])))
      | _ \<Rightarrow> Inl (RuntimeError MatmulInput))"

text \<open>\<open>F.softmax(x, dim=-1)\<close>.\<close>

definition softmax_last :: "real tensor \<Rightarrow> real tensor" where
  "softmax_last x =
     (case rev (shape x) of
        [] \<Rightarrow> tensor_map (\<lambda>_. 1) x
      | n # _ \<Rightarrow>
          build (shape x)
            (\<lambda>idx. exp (elem_at x idx) / (\<Sum>l\<leftarrow>[0..<n]. exp (elem_at x (butlast idx @ [l])))))"

text \<open>
  \<open>image[:, i, :, :]\<close>: four indices need four dimensions, and \<open>i\<close> must be below the
  size of dimension 1. An operand of higher rank would pass this line in PyTorch and be
  refused by the first convolution; four dimensions is the data model of the network.
\<close>

definition select_channel :: "nat \<Rightarrow> 'a tensor \<Rightarrow> error + 'a tensor" where
  "select_channel i img =
     (case shape img of
        [B, C, H, W] \<Rightarrow>
          if i < C then Inr (build [B, H, W] (\<lambda>idx. elem_at img [idx ! 0, i, idx ! 1, idx ! 2]))
          else Inl IndexError
      | _ \<Rightarrow> Inl IndexError)"

text \<open>\<open>torch.stack(ts, dim=1)\<close>: the operands must have one and the same shape.\<close>

definition torch_stack :: "'a tensor list \<Rightarrow> error + 'a tensor" where
  "torch_stack ts =
     (case ts of
        [] \<Rightarrow> Inl (RuntimeError StackInput)
      | t # _ \<Rightarrow>
          (if \<exists>u\<in>set ts. shape u \<noteq> shape t then Inl (RuntimeError StackInput)
           else case shape t of
                  [] \<Rightarrow> Inl IndexError
                | B # rest \<Rightarrow>
                    Inr (build (B # length ts # rest)
                           (\<lambda>idx. elem_at (ts ! (idx ! 1)) (hd idx # drop 2 idx)))))"

text \<open>\<open>torch.split(t, 1, dim=1)\<close>: one chunk of size 1 for every index of dimension 1.\<close>

definition torch_split :: "'a tensor \<Rightarrow> error + 'a tensor list" where
  "torch_split t =
     (case shape t of
        B # C # rest \<Rightarrow>
          Inr (map (\<lambda>c. build (B # 1 # rest) (\<lambda>idx. elem_at t (hd idx # (c + idx ! 1) # drop 2 idx)))
                 [0..<C])
      | _ \<Rightarrow> Inl IndexError)"

text \<open>
  \<open>torch.cat(ts, dim=1)\<close>: the operands agree in every dimension but dimension 1, whose
  sizes add up. \<open>locate\<close> finds the operand and the offset in it for an index of the
  result's dimension 1.
\<close>

fun locate :: "nat list \<Rightarrow> nat \<Rightarrow> nat \<times> nat" where
  "locate [] c = (0, c)"
| "locate (n # ns) c = (if c < n then (0, c) else (case locate ns (c - n) of (k, r) \<Rightarrow> (Suc k, r)))"

definition torch_cat :: "'a tensor list \<Rightarrow> error + 'a tensor" where
  "torch_cat ts =
     (case ts of
        [] \<Rightarrow> Inl (RuntimeError StackInput)
      | t # _ \<Rightarrow>
          (case shape t of
             B # C # rest \<Rightarrow>
               if \<exists>u\<in>set ts. length (shape u) < 2 \<or> hd (shape u) \<noteq> B \<or> drop 2 (shape u) \<noteq> rest
               then Inl (RuntimeError StackInput)
               else Inr (build (B # sum_list (map (\<lambda>u. shape u ! 1) ts) # rest)
                      (\<lambda>idx. case locate (map (\<lambda>u. shape u ! 1) ts) (idx ! 1) of
                                (k, c) \<Rightarrow> elem_at (ts ! k) (hd idx # c # drop 2 idx)))
           | _ \<Rightarrow> Inl IndexError))"

text \<open>
  \<open>nn.Upsample(scale_factor=2, mode='nearest')\<close> on a feature map: both spatial sizes
  double, and the element at \<open>(y, x)\<close> is the operand's at \<open>(y div 2, x div 2)\<close>.
\<close>

definition Upsample_forward :: "'a tensor \<Rightarrow> error + 'a tensor" where
  "Upsample_forward x =
     (case shape x of
        [B, C, H, W] \<Rightarrow> Inr (build4 B C (2 * H) (2 * W) (\<lambda>b c i j. at4 x b c (i div 2) (j div 2)))
      | _ \<Rightarrow> Inl (RuntimeError UpsampleInput))"

definition relu :: "real \<Rightarrow> real" where
  "relu v = max 0 v"

definition sigmoid :: "real \<Rightarrow> real" where
  "sigmoid v = 1 / (1 + exp (- v))"

section \<open>Rounding to binary32\<close>

text \<open>
  The tensors of the program hold IEEE binary32 numbers. The embedding computes with real
  numbers, exactly, everywhere but at the two squashing functions, on whose range the
  range of the outputs rests: \<open>torch.tanh\<close> and \<open>torch.sigmoid\<close> return the binary32
  number nearest to the exact value, a tie going to the even significand.
  \<open>float32_ulp a\<close> is the distance between neighbouring binary32 numbers at the magnitude
  \<open>a\<close>: 24 significant bits from 2 to the power -126 upwards, and the fixed spacing
  of 2 to the power -149 of the subnormal numbers below. There is no overflow to model: both
  functions are bounded by 1.
\<close>

definition round_half_even :: "real \<Rightarrow> int" where
  "round_half_even q =
     (let f = \<lfloor>q\<rfloor>; d = q - of_int f
      in if d < 1 / 2 then f else if 1 / 2 < d then f + 1 else if even f then f else f + 1)"

definition float32_ulp :: "real \<Rightarrow> real" where
  "float32_ulp a = 2 powr of_int (max \<lfloor>log 2 a\<rfloor> (- 126) - 23)"

definition float32_round :: "real \<Rightarrow> real" where
  "float32_round x =
     (if x = 0 then 0
      else sgn x * (of_int (round_half_even (\<bar>x\<bar> / float32_ulp \<bar>x\<bar>)) * float32_ulp \<bar>x\<bar>))"

text \<open>\<open>torch.tanh\<close> and \<open>torch.sigmoid\<close> on one element.\<close>

definition torch_tanh :: "real \<Rightarrow> real" where
  "torch_tanh v = float32_round (tanh v)"

definition torch_sigmoid :: "real \<Rightarrow> real" where
  "torch_sigmoid v = float32_round (sigmoid v)"

section \<open>Layers\<close>

record linear =
  in_features :: nat
  out_features :: nat
  lweight :: "nat \<Rightarrow> nat \<Rightarrow> real"
  lbias :: "nat \<Rightarrow> real"

text \<open>
  The values of the learned parameters are whatever initialisation or a checkpoint put
  there; they are passed in as a state dictionary, from a parameter name and an index
  vector to the value at that index.
\<close>

type_synonym state_dict = "string \<Rightarrow> nat list \<Rightarrow> real"

text \<open>
  \<open>nn.Linear(in_features, out_features)\<close>. PyTorch refuses a negative size when it allocates
  the weight; a layer without inputs or outputs is not a usable projection either, and
  both are reported as one failure here.
\<close>

definition Linear_init :: "state_dict \<Rightarrow> string \<Rightarrow> int \<Rightarrow> int \<Rightarrow> error + linear" where
  "Linear_init sd name n_in n_out =
     (if n_in \<le> 0 \<or> n_out \<le> 0 then Inl (RuntimeError NegativeOrEmptySize)
      else Inr \<lparr>in_features = nat n_in, out_features = nat n_out,
                lweight = (\<lambda>j k. sd (name @ ''.weight'') [j, k]),
                lbias = (\<lambda>j. sd (name @ ''.bias'') [j])\<rparr>)"

text \<open>The layer applied to the last dimension: \<open>y = x W\<^sup>T + b\<close>.\<close>

definition Linear_forward :: "linear \<Rightarrow> real tensor \<Rightarrow> error + real tensor" where
  "Linear_forward l x =
     (case rev (shape x) of
        [] \<Rightarrow> Inl (RuntimeError LinearInput)
      | k # pre \<Rightarrow>
          if k \<noteq> in_features l then Inl (RuntimeError LinearInput)
          else Inr (build (rev pre @ [out_features l])
                 (\<lambda>idx. lbias l (last idx)
                         + (\<Sum>i\<leftarrow>[0..<k]. elem_at x (butlast idx @ [i]) * lweight l (last idx) i))))"

record conv2d =
  in_channels :: nat
  out_channels :: nat
  kernel_size :: nat
  stride :: nat
  padding :: nat
  weight :: "nat \<Rightarrow> nat \<Rightarrow> nat \<Rightarrow> nat \<Rightarrow> real"
  bias :: "nat \<Rightarrow> real"

text \<open>
  \<open>nn.Conv2d(in_channels, out_channels, kernel_size, stride, padding)\<close>, with the same
  treatment of sizes that are not positive as for \<open>nn.Linear\<close>.
\<close>

definition Conv2d_init ::
  "state_dict \<Rightarrow> string \<Rightarrow> int \<Rightarrow> int \<Rightarrow> int \<Rightarrow> nat \<Rightarrow> nat \<Rightarrow> error + conv2d" where
  "Conv2d_init sd name n_in n_out k s p =
     (if n_in \<le> 0 \<or> n_out \<le> 0 \<or> k \<le> 0 then Inl (RuntimeError NegativeOrEmptySize)
      else Inr \<lparr>in_channels = nat n_in, out_channels = nat n_out, kernel_size = nat k,
                stride = s, padding = p,
                weight = (\<lambda>oc c i j. sd (name @ ''.weight'') [oc, c, i, j]),
                bias = (\<lambda>oc. sd (name @ ''.bias'') [oc])\<rparr>)"

text \<open>
  The output size of a convolution along one spatial dimension, and the operand read
  with its zero padding: row \<open>y\<close> and column \<open>x\<close> count from the top left corner of the
  padded plane.
\<close>

definition conv_out :: "nat \<Rightarrow> nat \<Rightarrow> nat \<Rightarrow> nat \<Rightarrow> nat" where
  "conv_out n k s p = (n + 2 * p - k) div s + 1"

definition padded :: "real tensor \<Rightarrow> nat \<Rightarrow> nat \<Rightarrow> nat \<Rightarrow> nat \<Rightarrow> nat \<Rightarrow> real" where
  "padded x p b c y x' =
     (case shape x of
        [B, C, H, W] \<Rightarrow>
          if p \<le> y \<and> y - p < H \<and> p \<le> x' \<and> x' - p < W then at4 x b c (y - p) (x' - p) else 0
      | _ \<Rightarrow> 0)"

text \<open>
  The layer applied to a batch of feature maps. The channel count must be the layer's,
  and the padded plane must hold the kernel.
\<close>

definition Conv2d_forward :: "conv2d \<Rightarrow> real tensor \<Rightarrow> error + real tensor" where
  "Conv2d_forward cv x =
     (case shape x of
        [B, C, H, W] \<Rightarrow>
          if C \<noteq> in_channels cv
             \<or> H + 2 * padding cv < kernel_size cv \<or> W + 2 * padding cv < kernel_size cv
          then Inl (RuntimeError ConvInput)
          else Inr (build4 B (out_channels cv)
                      (conv_out H (kernel_size cv) (stride cv) (padding cv))
                      (conv_out W (kernel_size cv) (stride cv) (padding cv))
                 (\<lambda>b oc oy ox.
                    bias cv oc
                    + (\<Sum>c\<leftarrow>[0..<C]. \<Sum>i\<leftarrow>[0..<kernel_size cv]. \<Sum>j\<leftarrow>[0..<kernel_size cv].
                         weight cv oc c i j
                         * padded x (padding cv) b c (oy * stride cv + i) (ox * stride cv + j))))
      | _ \<Rightarrow> Inl (RuntimeError ConvInput))"

section \<open>Gamma correction\<close>

text \<open>\<open>torch.clamp(image, lo, hi)\<close>: \<open>min(max(v, lo), hi)\<close> on every element.\<close>

definition torch_clamp :: "real tensor \<Rightarrow> real \<Rightarrow> real \<Rightarrow> real tensor" where
  "torch_clamp img lo hi = tensor_map (\<lambda>v. min (max v lo) hi) img"

text \<open>\<open>image + eps\<close> with a Python scalar on the right.\<close>

definition add_scalar :: "real tensor \<Rightarrow> real \<Rightarrow> real tensor" where
  "add_scalar img c = tensor_map (\<lambda>v. v + c) img"

text \<open>\<open>torch.pow(image, gamma)\<close> with a scalar exponent.\<close>

definition torch_pow :: "real tensor \<Rightarrow> real \<Rightarrow> real tensor" where
  "torch_pow img g = tensor_map (\<lambda>v. v powr g) img"

definition gamma_eps :: real where
  "gamma_eps = 1 / 10 ^ 8"

text \<open>
  \<open>GammaUnet._gamma_correction\<close>:
  \<^verbatim>\<open>eps = 1e-8; image = torch.clamp(image, 0, 1); return torch.pow(image + eps, gamma)\<close>
\<close>

definition gamma_correction :: "real tensor \<Rightarrow> real \<Rightarrow> real tensor" where
  "gamma_correction img g = torch_pow (add_scalar (torch_clamp img 0 1) gamma_eps) g"

section \<open>Multi-head self-attention\<close>

record mhsa =
  embed_size :: nat
  num_heads :: nat
  head_dim :: nat
  query_dense :: linear
  key_dense :: linear
  value_dense :: linear
  combine_heads :: linear

text \<open>
  \<open>MultiHeadSelfAttention.__init__\<close>. Python's \<open>%\<close> on integers raises
  \<open>ZeroDivisionError\<close> for a zero divisor and otherwise is the floored remainder, which is
  \<open>mod\<close> on \<open>int\<close>. The assertion comes before the four projections are built.
\<close>

definition MultiHeadSelfAttention_init :: "state_dict \<Rightarrow> string \<Rightarrow> int \<Rightarrow> int \<Rightarrow> error + mhsa" where
  "MultiHeadSelfAttention_init sd name e h =
     (if h = 0 then Inl ZeroDivisionError
      else if e mod h \<noteq> 0 then Inl AssertionError
      else
        and_then (Linear_init sd (name @ ''.query_dense'') e e) (\<lambda>q.
        and_then (Linear_init sd (name @ ''.key_dense'') e e) (\<lambda>k.
        and_then (Linear_init sd (name @ ''.value_dense'') e e) (\<lambda>v.
        and_then (Linear_init sd (name @ ''.combine_heads'') e e) (\<lambda>c.
          Inr \<lparr>embed_size = nat e, num_heads = nat h, head_dim = nat (e div h),
               query_dense = q, key_dense = k, value_dense = v, combine_heads = c\<rparr>)))))"

text \<open>
  \<open>split_heads\<close>:
  \<^verbatim>\<open>x = x.reshape(batch_size, -1, self.num_heads, self.head_dim); return x.permute(0, 2, 1, 3)\<close>
\<close>

definition split_heads :: "mhsa \<Rightarrow> 'a tensor \<Rightarrow> nat \<Rightarrow> error + 'a tensor" where
  "split_heads m x batch_size =
     and_then (reshape [Some batch_size, None, Some (num_heads m), Some (head_dim m)] x)
       (permute [0, 2, 1, 3])"

text \<open>
  The first two lines of \<open>forward\<close>:
  \<^verbatim>\<open>batch_size, _, height, width = x.size(); x = x.reshape(batch_size, height * width, -1)\<close>
\<close>

definition flatten_spatial :: "'a tensor \<Rightarrow> error + 'a tensor" where
  "flatten_spatial x =
     and_then (size4 x) (\<lambda>(batch_size, _, height, width).
       reshape [Some batch_size, Some (height * width), None] x)"

text \<open>
  The last line of \<open>forward\<close>:
  \<^verbatim>\<open>output.reshape(batch_size, height, width, self.embed_size).permute(0, 3, 1, 2)\<close>
\<close>

definition restore_spatial :: "mhsa \<Rightarrow> nat \<Rightarrow> nat \<Rightarrow> nat \<Rightarrow> 'a tensor \<Rightarrow> error + 'a tensor" where
  "restore_spatial m batch_size height width out =
     and_then (reshape [Some batch_size, Some height, Some width, Some (embed_size m)] out)
       (permute [0, 3, 1, 2])"

text \<open>\<open>MultiHeadSelfAttention.forward\<close>.\<close>

definition MultiHeadSelfAttention_forward :: "mhsa \<Rightarrow> real tensor \<Rightarrow> error + real tensor" where
  "MultiHeadSelfAttention_forward m x0 =
     and_then (size4 x0) (\<lambda>(batch_size, _, height, width).
     and_then (flatten_spatial x0) (\<lambda>x.
     and_then (and_then (Linear_forward (query_dense m) x) (\<lambda>q. split_heads m q batch_size)) (\<lambda>query.
     and_then (and_then (Linear_forward (key_dense m) x) (\<lambda>k. split_heads m k batch_size)) (\<lambda>key.
     and_then (and_then (Linear_forward (value_dense m) x) (\<lambda>v. split_heads m v batch_size)) (\<lambda>val.
     and_then (transpose_last2 key) (\<lambda>key_t.
     and_then (matmul query key_t) (\<lambda>scores.
     and_then (matmul (softmax_last (tensor_map (\<lambda>v. v / sqrt (real (head_dim m))) scores)) val)
       (\<lambda>attention.
     and_then (permute [0, 2, 1, 3] attention) (\<lambda>attention.
     and_then (reshape [Some batch_size, None, Some (embed_size m)] attention) (\<lambda>attention.
     and_then (Linear_forward (combine_heads m) attention) (\<lambda>output.
       restore_spatial m batch_size height width output)))))))))))"

section \<open>Denoiser\<close>

record denoiser =
  conv1 :: conv2d
  conv2 :: conv2d
  conv3 :: conv2d
  conv4 :: conv2d
  bottleneck :: mhsa
  output_layer :: conv2d
  res_layer :: conv2d
  activation :: "real \<Rightarrow> real"

text \<open>
  \<open>Denoiser.__init__\<close>, in the order of the source: the four encoder convolutions, the
  attention block with four heads, the output and the residual convolution. The
  activation is looked up by name in the source; here the caller passes the elementwise
  function itself, \<open>relu\<close> by default.
\<close>

definition Denoiser_init ::
  "state_dict \<Rightarrow> string \<Rightarrow> int \<Rightarrow> int \<Rightarrow> (real \<Rightarrow> real) \<Rightarrow> error + denoiser" where
  "Denoiser_init sd name num_filters k act =
     and_then (Conv2d_init sd (name @ ''.conv1'') 1 num_filters k 1 1) (\<lambda>c1.
     and_then (Conv2d_init sd (name @ ''.conv2'') num_filters num_filters k 2 1) (\<lambda>c2.
     and_then (Conv2d_init sd (name @ ''.conv3'') num_filters num_filters k 2 1) (\<lambda>c3.
     and_then (Conv2d_init sd (name @ ''.conv4'') num_filters num_filters k 2 1) (\<lambda>c4.
     and_then (MultiHeadSelfAttention_init sd (name @ ''.bottleneck'') num_filters 4) (\<lambda>att.
     and_then (Conv2d_init sd (name @ ''.output_layer'') 1 1 k 1 1) (\<lambda>ol.
     and_then (Conv2d_init sd (name @ ''.res_layer'') num_filters 1 k 1 1) (\<lambda>rl.
       Inr \<lparr>conv1 = c1, conv2 = c2, conv3 = c3, conv4 = c4, bottleneck = att,
            output_layer = ol, res_layer = rl, activation = act\<rparr>)))))))"

text \<open>
  The decoder half of \<open>Denoiser.forward\<close>, from the bottleneck's output on:
  \<^verbatim>\<open>x = self.up4(x); x = self.up3(x + x3); x = self.up2(x + x2); x = x + x1\<close>
  \<^verbatim>\<open>x = self.res_layer(x); return torch.tanh(self.output_layer(x + x))\<close>
\<close>

definition Denoiser_decode ::
  "denoiser \<Rightarrow> real tensor \<Rightarrow> real tensor \<Rightarrow> real tensor \<Rightarrow> real tensor \<Rightarrow> error + real tensor" where
  "Denoiser_decode d x1 x2 x3 x =
     and_then (Upsample_forward x) (\<lambda>x.
     and_then (and_then (tensor_add x x3) Upsample_forward) (\<lambda>x.
     and_then (and_then (tensor_add x x2) Upsample_forward) (\<lambda>x.
     and_then (tensor_add x x1) (\<lambda>x.
     and_then (Conv2d_forward (res_layer d) x) (\<lambda>x.
     and_then (and_then (tensor_add x x) (Conv2d_forward (output_layer d))) (\<lambda>y.
       Inr (tensor_map torch_tanh y)))))))"

text \<open>\<open>Denoiser.forward\<close>: the encoder, the bottleneck, then the decoder.\<close>

definition Denoiser_forward :: "denoiser \<Rightarrow> real tensor \<Rightarrow> error + real tensor" where
  "Denoiser_forward d x =
     and_then (Conv2d_forward (conv1 d) x) (\<lambda>c1. let x1 = tensor_map (activation d) c1 in
     and_then (Conv2d_forward (conv2 d) x1) (\<lambda>c2. let x2 = tensor_map (activation d) c2 in
     and_then (Conv2d_forward (conv3 d) x2) (\<lambda>c3. let x3 = tensor_map (activation d) c3 in
     and_then (Conv2d_forward (conv4 d) x3) (\<lambda>c4. let x4 = tensor_map (activation d) c4 in
     and_then (MultiHeadSelfAttention_forward (bottleneck d) x4) (\<lambda>x.
       Denoiser_decode d x1 x2 x3 x)))))"

section \<open>GammaUnet\<close>

record gamma_unet =
  denoiser_y :: denoiser
  denoiser_cb :: denoiser
  denoiser_cr :: denoiser
  final_conv :: conv2d
  gamma :: real

text \<open>
  \<open>GammaUnet.__init__\<close>: three denoisers with the default kernel size 3 and the default
  activation, the final convolution, and \<open>self.gamma = 0.4\<close>.
\<close>

definition GammaUnet_init :: "state_dict \<Rightarrow> int \<Rightarrow> error + gamma_unet" where
  "GammaUnet_init sd num_filters =
     and_then (Denoiser_init sd ''denoiser_y'' num_filters 3 relu) (\<lambda>dy.
     and_then (Denoiser_init sd ''denoiser_cb'' num_filters 3 relu) (\<lambda>dcb.
     and_then (Denoiser_init sd ''denoiser_cr'' num_filters 3 relu) (\<lambda>dcr.
     and_then (Conv2d_init sd ''final_conv'' 3 3 3 1 1) (\<lambda>fc.
       Inr \<lparr>denoiser_y = dy, denoiser_cb = dcb, denoiser_cr = dcr, final_conv = fc,
            gamma = 4 / 10\<rparr>))))"

text \<open>
  \<open>c1 * a + c2 * b + c3 * c\<close> on three planes cut from one image, which have one and the
  same shape.
\<close>

definition lincomb3 ::
  "real \<Rightarrow> real tensor \<Rightarrow> real \<Rightarrow> real tensor \<Rightarrow> real \<Rightarrow> real tensor \<Rightarrow> real tensor" where
  "lincomb3 c1 a c2 b c3 c =
     \<lparr>shape = shape a,
      data = map (\<lambda>(u, v, w). c1 * u + c2 * v + c3 * w) (zip (data a) (zip (data b) (data c)))\<rparr>"

text \<open>\<open>torch.sign(l) * (torch.abs(l) + eps).pow(1/3)\<close> with \<open>eps = 1e-6\<close>.\<close>

definition signed_cbrt :: "real tensor \<Rightarrow> real tensor" where
  "signed_cbrt t = tensor_map (\<lambda>v. sgn v * (\<bar>v\<bar> + 1 / 10 ^ 6) powr (1 / 3)) t"

text \<open>\<open>GammaUnet._rgb_to_oklab\<close>.\<close>

definition rgb_to_oklab :: "real tensor \<Rightarrow> error + real tensor" where
  "rgb_to_oklab img =
     and_then (select_channel 0 img) (\<lambda>r.
     and_then (select_channel 1 img) (\<lambda>g.
     and_then (select_channel 2 img) (\<lambda>b.
       let l = lincomb3 (4122214708 / 10 ^ 10) r (5363325363 / 10 ^ 10) g (514459929 / 10 ^ 10) b;
           m = lincomb3 (2119034982 / 10 ^ 10) r (6806995451 / 10 ^ 10) g (1073969566 / 10 ^ 10) b;
           s = lincomb3 (883024619 / 10 ^ 10) r (2817188376 / 10 ^ 10) g (6299787005 / 10 ^ 10) b;
           l' = signed_cbrt l;
           m' = signed_cbrt m;
           s' = signed_cbrt s;
           L = lincomb3 (2104542553 / 10 ^ 10) l' (7936177850 / 10 ^ 10) m' (- 40720468 / 10 ^ 10) s';
           a = lincomb3 (19779984951 / 10 ^ 10) l' (- 24285922050 / 10 ^ 10) m' (4505937099 / 10 ^ 10) s';
           b_out = lincomb3 (259040371 / 10 ^ 10) l' (7827717662 / 10 ^ 10) m' (- 8086757660 / 10 ^ 10) s'
       in torch_stack [L, a, b_out])))"

text \<open>
  The first half of \<open>GammaUnet.forward\<close>, up to the tensors handed to the three
  denoisers:
  \<^verbatim>\<open>ycbcr = self._rgb_to_oklab(x); y, cb, cr = torch.split(ycbcr, 1, dim=1)\<close>
  \<^verbatim>\<open>y = self._gamma_correction(y, self.gamma); cb = self._gamma_correction(cb, self.gamma)\<close>
  Unpacking into three names needs exactly three chunks.
\<close>

definition denoiser_inputs ::
  "gamma_unet \<Rightarrow> real tensor \<Rightarrow> error + (real tensor \<times> real tensor \<times> real tensor)" where
  "denoiser_inputs m x =
     and_then (rgb_to_oklab x) (\<lambda>ycbcr.
     and_then (torch_split ycbcr) (\<lambda>chunks.
       case chunks of
         [y, cb, cr] \<Rightarrow> Inr (gamma_correction y (gamma m), gamma_correction cb (gamma m), cr)
       | _ \<Rightarrow> Inl ValueError))"

text \<open>
  The second half of \<open>GammaUnet.forward\<close>: every branch through its own denoiser, the
  concatenation, the final convolution and the sigmoid.
  \<^verbatim>\<open>y_denoised = self.denoiser_y(y); cb_denoised = self.denoiser_cb(cb)\<close>
  \<^verbatim>\<open>cr_denoised = self.denoiser_cr(cr)\<close>
  \<^verbatim>\<open>combined = torch.cat([y_denoised, cb_denoised, cr_denoised], dim=1)\<close>
  \<^verbatim>\<open>output = self.final_conv(combined); return torch.sigmoid(output)\<close>
\<close>

definition denoise_and_fuse ::
  "gamma_unet \<Rightarrow> real tensor \<times> real tensor \<times> real tensor \<Rightarrow> error + real tensor" where
  "denoise_and_fuse m = (\<lambda>(y, cb, cr).
     and_then (Denoiser_forward (denoiser_y m) y) (\<lambda>y_denoised.
     and_then (Denoiser_forward (denoiser_cb m) cb) (\<lambda>cb_denoised.
     and_then (Denoiser_forward (denoiser_cr m) cr) (\<lambda>cr_denoised.
     and_then (torch_cat [y_denoised, cb_denoised, cr_denoised]) (\<lambda>combined.
     and_then (Conv2d_forward (final_conv m) combined) (\<lambda>output.
       Inr (tensor_map torch_sigmoid output)))))))"

text \<open>\<open>GammaUnet.forward\<close>.\<close>

definition GammaUnet_forward :: "gamma_unet \<Rightarrow> real tensor \<Rightarrow> error + real tensor" where
  "GammaUnet_forward m x = and_then (denoiser_inputs m x) (denoise_and_fuse m)"

section \<open>Sizes along one spatial dimension\<close>

text \<open>
  What happens to one spatial size on its way through the denoiser. \<open>down\<close> is a
  convolution with kernel 3, stride 2 and padding 1. \<open>chain\<close> follows the decoder: the
  bottleneck's size \<open>a4\<close> is doubled and added to the encoder's \<open>a3\<close>, the sum is doubled
  and added to \<open>a2\<close>, and that sum is doubled and added to \<open>a1\<close>; \<open>None\<close> is a broadcasting
  failure at one of the three additions.
\<close>

definition down :: "nat \<Rightarrow> nat" where
  "down n = conv_out n 3 2 1"

definition chain :: "nat \<Rightarrow> nat \<Rightarrow> nat \<Rightarrow> nat \<Rightarrow> nat option" where
  "chain a1 a2 a3 a4 =
     (case broadcast_dim (2 * a4) a3 of
        None \<Rightarrow> None
      | Some u3 \<Rightarrow>
          (case broadcast_dim (2 * u3) a2 of
             None \<Rightarrow> None
           | Some u2 \<Rightarrow> broadcast_dim (2 * u2) a1))"

definition skip_dim :: "nat \<Rightarrow> nat option" where
  "skip_dim n = chain n (down n) (down (down n)) (down (down (down n)))"

section \<open>Example parameters and inputs\<close>

text \<open>
  Concrete values at which the theorems below are evaluated: a state dictionary with every
  parameter zero, the network and a denoiser built from it with four filters, and a
  feature map with four channels and two spatial positions whose elements are the numbers
  0 to 7 in storage order.
\<close>

definition zero_params :: state_dict where
  "zero_params name idx = 0"

definition example_net :: gamma_unet where
  "example_net = (case GammaUnet_init zero_params 4 of Inr m \<Rightarrow> m)"

definition example_denoiser :: denoiser where
  "example_denoiser = (case Denoiser_init zero_params ''denoiser'' 4 3 relu of Inr d \<Rightarrow> d)"

text \<open>
  An image of 8 by 8 pixels with three channels and a single-channel plane of the same
  size, whose elements are all different and lie in \<open>[0, 1)\<close>; and a state dictionary
  none of whose parameters is zero, with the network built from it.
\<close>

definition example_image :: "real tensor" where
  "example_image = build4 1 3 8 8 (\<lambda>b c i j. real (64 * c + 8 * i + j) / 192)"


definition varied_params :: state_dict where
  "varied_params name idx = (1 + real (length name) + real (sum_list idx)) / 64"

definition varied_net :: gamma_unet where
  "varied_net = (case GammaUnet_init varied_params 4 of Inr m \<Rightarrow> m)"




definition example_features :: "nat tensor" where
  "example_features = \<lparr>shape = [1, 4, 1, 2], data = [0, 1, 2, 3, 4, 5, 6, 7]\<rparr>"

section \<open>Basic facts\<close>

lemma and_then_Inr [simp]: "and_then (Inr v) f = f v"
  by (simp add: and_then_def)

lemma and_then_Inl [simp]: "and_then (Inl e) f = Inl e"
  by (simp add: and_then_def)

lemma shape_tensor_map [simp]: "shape (tensor_map f t) = shape t"
  by (simp add: tensor_map_def)

lemma data_tensor_map [simp]: "data (tensor_map f t) = map f (data t)"
  by (simp add: tensor_map_def)

lemma shape_build [simp]: "shape (build s f) = s"
  by (simp add: build_def)

lemma gamma_eps_pos: "0 < gamma_eps"
  by (simp add: gamma_eps_def)

lemma clamp_unit_bounds: "0 \<le> min (max (v::real) 0) 1 \<and> min (max v 0) 1 \<le> 1"
  by auto

lemma clamp_unit_idem: "min (max (min (max (v::real) 0) 1) 0) 1 = min (max v 0) 1"
  by auto


section \<open>Rounding to binary32: range and saturation\<close>


















section \<open>Shapes of the tensor operations\<close>

lemma upt4: "[0..<4] = [0, 1, 2, 3]" by (simp add: upt_rec)
lemma upt2: "[0..<2] = [0, 1]" by (simp add: upt_rec)

lemma shape_build4 [simp]: "shape (build4 B C H W f) = [B, C, H, W]"
  by (simp add: build4_def)

lemma Conv2d_forward_shape:
  assumes "shape x = [B, C, H, W]" "in_channels cv = C"
    "kernel_size cv \<le> H + 2 * padding cv" "kernel_size cv \<le> W + 2 * padding cv"
  shows "\<exists>y. Conv2d_forward cv x = Inr y
           \<and> shape y = [B, out_channels cv,
                         conv_out H (kernel_size cv) (stride cv) (padding cv),
                         conv_out W (kernel_size cv) (stride cv) (padding cv)]"
  using assms by (simp add: Conv2d_forward_def)

lemma Upsample_forward_shape:
  assumes "shape x = [B, C, H, W]"
  shows "\<exists>y. Upsample_forward x = Inr y \<and> shape y = [B, C, 2 * H, 2 * W]"
  using assms by (simp add: Upsample_forward_def)

lemma broadcast_dim_same [simp]: "broadcast_dim a a = Some a"
  by (simp add: broadcast_dim_def)

lemma tensor_add_shape4:
  assumes "shape a = [B, C, H, W]" "shape b = [B, C, H', W']"
    "broadcast_dim H H' = Some h" "broadcast_dim W W' = Some w"
  shows "\<exists>y. tensor_add a b = Inr y \<and> shape y = [B, C, h, w]"
  using assms by (simp add: tensor_add_def pad_shape_def Let_def)

lemma tensor_add_fail4:
  assumes "shape a = [B, C, H, W]" "shape b = [B, C, H', W']"
    "broadcast_dim H H' = None \<or> broadcast_dim W W' = None"
  shows "tensor_add a b = Inl (RuntimeError BroadcastMismatch)"
  using assms by (auto simp add: tensor_add_def pad_shape_def Let_def split: option.splits)

lemma reshape_infer3:
  assumes "prod_list (shape t) = a * b * c" "0 < a" "0 < b"
  shows "reshape [Some a, Some b, None] t = Inr \<lparr>shape = [a, b, c], data = data t\<rparr>"
  using assms by (simp add: reshape_def)

lemma permute_0213:
  assumes "shape t = [a, b, c, d]"
  shows "\<exists>y. permute [0, 2, 1, 3] t = Inr y \<and> shape y = [a, c, b, d]"
  using assms by (simp add: permute_def upt4)

lemma permute_0312:
  assumes "shape t = [a, b, c, d]"
  shows "\<exists>y. permute [0, 3, 1, 2] t = Inr y \<and> shape y = [a, d, b, c]"
  using assms by (simp add: permute_def upt4)

lemma transpose_last2_shape4:
  assumes "shape t = [a, b, c, d]"
  shows "\<exists>y. transpose_last2 t = Inr y \<and> shape y = [a, b, d, c]"
  using assms by (simp add: transpose_last2_def permute_def upt4 upt2)

lemma matmul_shape4:
  assumes "shape a = [B, h, n, k]" "shape b = [B, h, k, m]"
  shows "\<exists>y. matmul a b = Inr y \<and> shape y = [B, h, n, m]"
  using assms by (simp add: matmul_def)

lemma softmax_last_shape [simp]: "shape (softmax_last x) = shape x"
  by (simp add: softmax_last_def split: list.splits)

lemma Linear_forward_shape3:
  assumes "shape x = [a, b, c]" "in_features l = c"
  shows "\<exists>y. Linear_forward l x = Inr y \<and> shape y = [a, b, out_features l]"
  using assms by (simp add: Linear_forward_def)

section \<open>Shape of the attention block\<close>

lemma reshape_hole:
  assumes "length (filter (\<lambda>d. d = None) req) = 1"
    and "prod_list (map (\<lambda>d. case d of None \<Rightarrow> 1 | Some k \<Rightarrow> k) req) = kn"
    and "0 < kn" and "prod_list (shape t) = q * kn"
  shows "reshape req t = Inr \<lparr>shape = map (\<lambda>d. case d of None \<Rightarrow> q | Some k \<Rightarrow> k) req, data = data t\<rparr>"
  using assms by (simp add: reshape_def Let_def)

lemma reshape_full:
  assumes "length (filter (\<lambda>d. d = None) req) = 0"
    and "prod_list (map (\<lambda>d. case d of None \<Rightarrow> 1 | Some k \<Rightarrow> k) req) = prod_list (shape t)"
  shows "reshape req t = Inr \<lparr>shape = map (\<lambda>d. case d of None \<Rightarrow> 0 | Some k \<Rightarrow> k) req, data = data t\<rparr>"
  using assms by (simp add: reshape_def Let_def)

lemma flatten_spatial_eq:
  assumes "shape x = [B, E, h, w]" "0 < B" "0 < h" "0 < w"
  shows "flatten_spatial x = Inr \<lparr>shape = [B, h * w, E], data = data x\<rparr>"
proof -
  have "reshape [Some B, Some (h * w), None] x
        = Inr \<lparr>shape = map (\<lambda>d. case d of None \<Rightarrow> E | Some k \<Rightarrow> k) [Some B, Some (h * w), None], data = data x\<rparr>"
    by (rule reshape_hole[where kn = "B * (h * w)"]) (use assms in \<open>simp_all add: algebra_simps\<close>)
  then show ?thesis using assms by (simp add: flatten_spatial_def size4_def)
qed

lemma split_heads_shape:
  assumes "shape x = [B, N, E]" "num_heads m * head_dim m = E" "0 < B" "0 < E"
  shows "\<exists>y. split_heads m x B = Inr y \<and> shape y = [B, num_heads m, N, head_dim m]"
proof -
  have "reshape [Some B, None, Some (num_heads m), Some (head_dim m)] x
        = Inr \<lparr>shape = map (\<lambda>d. case d of None \<Rightarrow> N | Some k \<Rightarrow> k)
                  [Some B, None, Some (num_heads m), Some (head_dim m)], data = data x\<rparr>"
    by (rule reshape_hole[where kn = "B * E"]) (use assms in \<open>auto simp add: algebra_simps\<close>)
  then show ?thesis
    using permute_0213[of "\<lparr>shape = [B, N, num_heads m, head_dim m], data = data x\<rparr>" B N "num_heads m" "head_dim m"]
    by (simp add: split_heads_def)
qed

lemma merge_heads_eq:
  assumes "shape x = [B, N, nh, dh]" "nh * dh = E" "0 < B" "0 < E"
  shows "reshape [Some B, None, Some E] x = Inr \<lparr>shape = [B, N, E], data = data x\<rparr>"
proof -
  have "reshape [Some B, None, Some E] x
        = Inr \<lparr>shape = map (\<lambda>d. case d of None \<Rightarrow> N | Some k \<Rightarrow> k) [Some B, None, Some E], data = data x\<rparr>"
    by (rule reshape_hole[where kn = "B * E"]) (use assms in \<open>auto simp add: algebra_simps\<close>)
  then show ?thesis by simp
qed

lemma restore_spatial_shape:
  assumes "shape x = [B, h * w, E]" "embed_size m = E"
  shows "\<exists>y. restore_spatial m B h w x = Inr y \<and> shape y = [B, E, h, w]"
proof -
  have "reshape [Some B, Some h, Some w, Some E] x
        = Inr \<lparr>shape = map (\<lambda>d. case d of None \<Rightarrow> 0 | Some k \<Rightarrow> k) [Some B, Some h, Some w, Some E], data = data x\<rparr>"
    by (rule reshape_full) (use assms in \<open>simp_all add: algebra_simps\<close>)
  then show ?thesis
    using permute_0312[of "\<lparr>shape = [B, h, w, E], data = data x\<rparr>" B h w E] assms
    by (simp add: restore_spatial_def)
qed

lemma MultiHeadSelfAttention_forward_shape:
  assumes x: "shape x = [B, E, h, w]" and pos: "0 < B" "0 < h" "0 < w" "0 < E"
    and m: "embed_size m = E" "num_heads m * head_dim m = E"
    and q: "in_features (query_dense m) = E" "out_features (query_dense m) = E"
    and k: "in_features (key_dense m) = E" "out_features (key_dense m) = E"
    and v: "in_features (value_dense m) = E" "out_features (value_dense m) = E"
    and c: "in_features (combine_heads m) = E" "out_features (combine_heads m) = E"
  shows "\<exists>y. MultiHeadSelfAttention_forward m x = Inr y \<and> shape y = [B, E, h, w]"
proof -
  let ?s = "\<lparr>shape = [B, h * w, E], data = data x\<rparr>"
  have fl: "flatten_spatial x = Inr ?s"
    using x pos(1-3) by (rule flatten_spatial_eq)
  have sz: "size4 x = Inr (B, E, h, w)" using x by (simp add: size4_def)
  obtain ql where ql: "Linear_forward (query_dense m) ?s = Inr ql" "shape ql = [B, h * w, E]"
    using Linear_forward_shape3[of ?s B "h * w" E "query_dense m"] q by auto
  obtain kl where kl: "Linear_forward (key_dense m) ?s = Inr kl" "shape kl = [B, h * w, E]"
    using Linear_forward_shape3[of ?s B "h * w" E "key_dense m"] k by auto
  obtain vl where vl: "Linear_forward (value_dense m) ?s = Inr vl" "shape vl = [B, h * w, E]"
    using Linear_forward_shape3[of ?s B "h * w" E "value_dense m"] v by auto
  obtain qh where qh: "split_heads m ql B = Inr qh" "shape qh = [B, num_heads m, h * w, head_dim m]"
    using split_heads_shape[OF ql(2) m(2) pos(1) pos(4)] by auto
  obtain kh where kh: "split_heads m kl B = Inr kh" "shape kh = [B, num_heads m, h * w, head_dim m]"
    using split_heads_shape[OF kl(2) m(2) pos(1) pos(4)] by auto
  obtain vh where vh: "split_heads m vl B = Inr vh" "shape vh = [B, num_heads m, h * w, head_dim m]"
    using split_heads_shape[OF vl(2) m(2) pos(1) pos(4)] by auto
  obtain kt where kt: "transpose_last2 kh = Inr kt" "shape kt = [B, num_heads m, head_dim m, h * w]"
    using transpose_last2_shape4[OF kh(2)] by auto
  obtain sc where sc: "matmul qh kt = Inr sc" "shape sc = [B, num_heads m, h * w, h * w]"
    using matmul_shape4[OF qh(2) kt(2)] by auto
  let ?aw = "softmax_last (tensor_map (\<lambda>v. v / sqrt (real (head_dim m))) sc)"
  have aw: "shape ?aw = [B, num_heads m, h * w, h * w]" using sc(2) by simp
  obtain att where att: "matmul ?aw vh = Inr att" "shape att = [B, num_heads m, h * w, head_dim m]"
    using matmul_shape4[OF aw vh(2)] by auto
  obtain ap where ap: "permute [0, 2, 1, 3] att = Inr ap" "shape ap = [B, h * w, num_heads m, head_dim m]"
    using permute_0213[OF att(2)] by auto
  have ar: "reshape [Some B, None, Some E] ap = Inr \<lparr>shape = [B, h * w, E], data = data ap\<rparr>"
    using merge_heads_eq[OF ap(2) m(2) pos(1) pos(4)] .
  let ?ar = "\<lparr>shape = [B, h * w, E], data = data ap\<rparr>"
  obtain out where out: "Linear_forward (combine_heads m) ?ar = Inr out" "shape out = [B, h * w, E]"
    using Linear_forward_shape3[of ?ar B "h * w" E "combine_heads m"] c by auto
  obtain y where y: "restore_spatial m B h w out = Inr y" "shape y = [B, E, h, w]"
    using restore_spatial_shape[OF out(2) m(1)] by auto
  show ?thesis
    unfolding MultiHeadSelfAttention_forward_def
    using sz fl ql kl vl qh kh vh kt sc att ap ar m(1) out y by simp
qed

section \<open>What construction guarantees\<close>

lemma Linear_init_props:
  assumes "Linear_init sd name e e = Inr l"
  shows "0 < e \<and> in_features l = nat e \<and> out_features l = nat e"
  using assms by (auto simp: Linear_init_def split: if_splits)

lemma Conv2d_init_props:
  assumes "Conv2d_init sd name a b k s p = Inr cv"
  shows "0 < a \<and> 0 < b \<and> 0 < k \<and> in_channels cv = nat a \<and> out_channels cv = nat b
         \<and> kernel_size cv = nat k \<and> stride cv = s \<and> padding cv = p"
  using assms by (auto simp: Conv2d_init_def split: if_splits)

lemma and_then_eq_Inr: "and_then r f = Inr y \<longleftrightarrow> (\<exists>v. r = Inr v \<and> f v = Inr y)"
  by (cases r) simp_all

lemma MultiHeadSelfAttention_init_props:
  assumes "MultiHeadSelfAttention_init sd name e h = Inr m"
  shows "0 < e \<and> h \<noteq> 0 \<and> e mod h = 0 \<and> embed_size m = nat e \<and> num_heads m = nat h
         \<and> head_dim m = nat (e div h)
         \<and> in_features (query_dense m) = nat e \<and> out_features (query_dense m) = nat e
         \<and> in_features (key_dense m) = nat e \<and> out_features (key_dense m) = nat e
         \<and> in_features (value_dense m) = nat e \<and> out_features (value_dense m) = nat e
         \<and> in_features (combine_heads m) = nat e \<and> out_features (combine_heads m) = nat e"
proof -
  from assms have h: "h \<noteq> 0" "e mod h = 0"
    by (auto simp: MultiHeadSelfAttention_init_def split: if_splits)
  with assms obtain q k v c where l: "Linear_init sd (name @ ''.query_dense'') e e = Inr q"
      "Linear_init sd (name @ ''.key_dense'') e e = Inr k"
      "Linear_init sd (name @ ''.value_dense'') e e = Inr v"
      "Linear_init sd (name @ ''.combine_heads'') e e = Inr c"
    and m: "m = \<lparr>embed_size = nat e, num_heads = nat h, head_dim = nat (e div h),
               query_dense = q, key_dense = k, value_dense = v, combine_heads = c\<rparr>"
    by (auto simp: MultiHeadSelfAttention_init_def and_then_eq_Inr)
  show ?thesis
    using h Linear_init_props[OF l(1)] Linear_init_props[OF l(2)]
      Linear_init_props[OF l(3)] Linear_init_props[OF l(4)]
    by (simp add: m)
qed

lemma heads_times_dim:
  assumes "0 < e" "e mod 4 = 0"
  shows "4 * nat (e div 4) = nat (e::int)"
proof -
  from assms(2) obtain k where k: "e = 4 * k" by (auto simp: mod_eq_0_iff_dvd elim: dvdE)
  then show ?thesis by (simp add: nat_mult_distrib)
qed

lemma Denoiser_init_props:
  assumes "Denoiser_init sd name nf 3 act = Inr d"
  shows "0 < nf \<and> nf mod 4 = 0 \<and> activation d = act
     \<and> in_channels (conv1 d) = 1 \<and> out_channels (conv1 d) = nat nf
     \<and> kernel_size (conv1 d) = 3 \<and> stride (conv1 d) = 1 \<and> padding (conv1 d) = 1
     \<and> in_channels (conv2 d) = nat nf \<and> out_channels (conv2 d) = nat nf
     \<and> kernel_size (conv2 d) = 3 \<and> stride (conv2 d) = 2 \<and> padding (conv2 d) = 1
     \<and> in_channels (conv3 d) = nat nf \<and> out_channels (conv3 d) = nat nf
     \<and> kernel_size (conv3 d) = 3 \<and> stride (conv3 d) = 2 \<and> padding (conv3 d) = 1
     \<and> in_channels (conv4 d) = nat nf \<and> out_channels (conv4 d) = nat nf
     \<and> kernel_size (conv4 d) = 3 \<and> stride (conv4 d) = 2 \<and> padding (conv4 d) = 1
     \<and> in_channels (res_layer d) = nat nf \<and> out_channels (res_layer d) = 1
     \<and> kernel_size (res_layer d) = 3 \<and> stride (res_layer d) = 1 \<and> padding (res_layer d) = 1
     \<and> in_channels (output_layer d) = 1 \<and> out_channels (output_layer d) = 1
     \<and> kernel_size (output_layer d) = 3 \<and> stride (output_layer d) = 1 \<and> padding (output_layer d) = 1
     \<and> (\<exists>bname. MultiHeadSelfAttention_init sd bname nf 4 = Inr (bottleneck d))"
proof -
  from assms obtain c1 c2 c3 c4 att ol rl where
    c: "Conv2d_init sd (name @ ''.conv1'') 1 nf 3 1 1 = Inr c1"
       "Conv2d_init sd (name @ ''.conv2'') nf nf 3 2 1 = Inr c2"
       "Conv2d_init sd (name @ ''.conv3'') nf nf 3 2 1 = Inr c3"
       "Conv2d_init sd (name @ ''.conv4'') nf nf 3 2 1 = Inr c4"
       "Conv2d_init sd (name @ ''.output_layer'') 1 1 3 1 1 = Inr ol"
       "Conv2d_init sd (name @ ''.res_layer'') nf 1 3 1 1 = Inr rl"
    and a: "MultiHeadSelfAttention_init sd (name @ ''.bottleneck'') nf 4 = Inr att"
    and d: "d = \<lparr>conv1 = c1, conv2 = c2, conv3 = c3, conv4 = c4, bottleneck = att,
            output_layer = ol, res_layer = rl, activation = act\<rparr>"
    unfolding Denoiser_init_def and_then_eq_Inr by auto
  show ?thesis
    using Conv2d_init_props[OF c(1)] Conv2d_init_props[OF c(2)] Conv2d_init_props[OF c(3)]
      Conv2d_init_props[OF c(4)] Conv2d_init_props[OF c(5)] Conv2d_init_props[OF c(6)]
      MultiHeadSelfAttention_init_props[OF a] a
    by (auto simp add: d)
qed

section \<open>The decoder and its skip additions\<close>

lemma add_cases:
  assumes "shape x = [B, F, p, q]" "shape s = [B, F, p', q']"
  obtains (fail) "broadcast_dim p p' = None \<or> broadcast_dim q q' = None"
      "tensor_add x s = Inl (RuntimeError BroadcastMismatch)"
    | (ok) u v y where "broadcast_dim p p' = Some u" "broadcast_dim q q' = Some v"
      "tensor_add x s = Inr y" "shape y = [B, F, u, v]"
proof (cases "broadcast_dim p p' = None \<or> broadcast_dim q q' = None")
  case True
  then show ?thesis using tensor_add_fail4[OF assms] fail by simp
next
  case False
  then obtain u v where uv: "broadcast_dim p p' = Some u" "broadcast_dim q q' = Some v" by auto
  from tensor_add_shape4[OF assms uv] show ?thesis using uv ok by auto
qed

lemma add_up_cases:
  assumes "shape x = [B, F, p, q]" "shape s = [B, F, p', q']"
  obtains (fail) "broadcast_dim p p' = None \<or> broadcast_dim q q' = None"
      "and_then (tensor_add x s) Upsample_forward = Inl (RuntimeError BroadcastMismatch)"
    | (ok) u v y where "broadcast_dim p p' = Some u" "broadcast_dim q q' = Some v"
      "and_then (tensor_add x s) Upsample_forward = Inr y" "shape y = [B, F, 2 * u, 2 * v]"
proof (cases rule: add_cases[OF assms])
  case 1
  then show ?thesis using fail by simp
next
  case a: (2 u v y)
  from Upsample_forward_shape[OF a(4)] a show ?thesis using ok by auto
qed

lemma broadcast_dim_left:
  assumes "broadcast_dim (2 * a) b = Some u" "0 < a"
  shows "u = 2 * a"
  using assms by (auto simp: broadcast_dim_def split: if_splits)

lemma final_convs:
  assumes y: "shape y = [B, F, u, v]" and pos: "0 < u" "0 < v"
    and r: "in_channels (res_layer d) = F" "out_channels (res_layer d) = 1"
       "kernel_size (res_layer d) = 3" "stride (res_layer d) = 1" "padding (res_layer d) = 1"
    and o: "in_channels (output_layer d) = 1" "out_channels (output_layer d) = 1"
       "kernel_size (output_layer d) = 3" "stride (output_layer d) = 1" "padding (output_layer d) = 1"
  shows "\<exists>z. and_then (Conv2d_forward (res_layer d) y) (\<lambda>x.
            and_then (and_then (tensor_add x x) (Conv2d_forward (output_layer d))) (\<lambda>y.
              Inr (tensor_map torch_tanh y))) = Inr z \<and> shape z = [B, 1, u, v]"
proof -
  have co: "conv_out u 3 1 1 = u" "conv_out v 3 1 1 = v"
    using pos by (simp_all add: conv_out_def)
  from Conv2d_forward_shape[OF y r(1)] r pos co
  obtain x where x: "Conv2d_forward (res_layer d) y = Inr x" "shape x = [B, 1, u, v]"
    by auto
  from tensor_add_shape4[OF x(2) x(2), of u v]
  obtain xx where xx: "tensor_add x x = Inr xx" "shape xx = [B, 1, u, v]" by auto
  from Conv2d_forward_shape[OF xx(2) o(1)] o pos co
  obtain z where z: "Conv2d_forward (output_layer d) xx = Inr z" "shape z = [B, 1, u, v]"
    by auto
  show ?thesis using x xx z by simp
qed

lemma Denoiser_decode_result:
  assumes x1: "shape x1 = [B, F, a1, b1]" and x2: "shape x2 = [B, F, a2, b2]"
    and x3: "shape x3 = [B, F, a3, b3]" and x: "shape x = [B, F, a4, b4]"
    and pos: "0 < a4" "0 < b4"
    and r: "in_channels (res_layer d) = F" "out_channels (res_layer d) = 1"
       "kernel_size (res_layer d) = 3" "stride (res_layer d) = 1" "padding (res_layer d) = 1"
    and o: "in_channels (output_layer d) = 1" "out_channels (output_layer d) = 1"
       "kernel_size (output_layer d) = 3" "stride (output_layer d) = 1" "padding (output_layer d) = 1"
  obtains (fail) "chain a1 a2 a3 a4 = None \<or> chain b1 b2 b3 b4 = None"
      "Denoiser_decode d x1 x2 x3 x = Inl (RuntimeError BroadcastMismatch)"
    | (ok) u v y where "chain a1 a2 a3 a4 = Some u" "chain b1 b2 b3 b4 = Some v"
      "Denoiser_decode d x1 x2 x3 x = Inr y" "shape y = [B, 1, u, v]"
proof -
  from Upsample_forward_shape[OF x]
  obtain y4 where y4: "Upsample_forward x = Inr y4" "shape y4 = [B, F, 2 * a4, 2 * b4]" by auto
  show ?thesis
  proof (cases rule: add_up_cases[OF y4(2) x3])
    case 1
    then show ?thesis
      by (intro fail) (auto simp: chain_def Denoiser_decode_def y4)
  next
    case s3: (2 u3 v3 y3)
    have u3: "0 < u3" "0 < v3"
      using broadcast_dim_left[OF s3(1) pos(1)] broadcast_dim_left[OF s3(2) pos(2)] pos by simp_all
    show ?thesis
    proof (cases rule: add_up_cases[OF s3(4) x2])
      case 1
      then show ?thesis
        using s3 by (intro fail) (auto simp: chain_def Denoiser_decode_def y4)
    next
      case s2: (2 u2 v2 y2)
      have u2: "0 < u2" "0 < v2"
        using broadcast_dim_left[OF s2(1) u3(1)] broadcast_dim_left[OF s2(2) u3(2)] u3 by simp_all
      show ?thesis
      proof (cases rule: add_cases[OF s2(4) x1])
        case 1
        then show ?thesis
          using s3 s2 by (intro fail) (auto simp: chain_def Denoiser_decode_def y4)
      next
        case s1: (2 u v y)
        have u: "0 < u" "0 < v"
          using broadcast_dim_left[OF s1(1) u2(1)] broadcast_dim_left[OF s1(2) u2(2)] u2 by simp_all
        from final_convs[OF s1(4) u r o] obtain z where
          z: "and_then (Conv2d_forward (res_layer d) y) (\<lambda>x.
            and_then (and_then (tensor_add x x) (Conv2d_forward (output_layer d))) (\<lambda>y.
              Inr (tensor_map torch_tanh y))) = Inr z" "shape z = [B, 1, u, v]" by auto
        show ?thesis
          using s3 s2 s1 z by (intro ok[of u v z]) (auto simp: chain_def Denoiser_decode_def y4)
      qed
    qed
  qed
qed

section \<open>Arithmetic of the skip sizes\<close>

lemma down_eq: "0 < n \<Longrightarrow> down n = (n + 1) div 2"
  by (auto simp: down_def conv_out_def)

lemma down_pos: "0 < n \<Longrightarrow> 0 < down n"
  by (simp add: down_def conv_out_def)

lemma same_eq: "0 < n \<Longrightarrow> conv_out n 3 1 1 = n"
  by (simp add: conv_out_def)

lemma chain_eq:
  assumes "0 < n" "a = (n + 1) div 2" "b = (a + 1) div 2" "c = (b + 1) div 2"
  shows "chain n a b c = (if 8 dvd n then Some n else if n = 1 then Some 8 else None)"
proof -
  consider (m8) "8 dvd n" | (one) "n = 1" | (bad) "\<not> 8 dvd n" "n \<noteq> 1" by blast
  then show ?thesis
  proof cases
    case m8
    then obtain k where k: "n = 8 * k" by (auto elim: dvdE)
    with assms have "a = 4 * k" "b = 2 * k" "c = k" by auto
    then show ?thesis using k m8 by (simp add: chain_def broadcast_dim_def)
  next
    case one
    with assms have "a = 1" "b = 1" "c = 1" by auto
    then show ?thesis using one by (simp add: chain_def broadcast_dim_def)
  next
    case bad
    have c: "0 < c" "0 < b" "0 < a" using assms by auto
    show ?thesis
    proof (cases "broadcast_dim (2 * c) b")
      case None
      then show ?thesis using bad by (simp add: chain_def)
    next
      case (Some u3)
      then have u3: "u3 = 2 * c" using c by (auto simp: broadcast_dim_def split: if_splits)
      have b: "b = 2 * c \<or> b = 1" using Some c by (auto simp: broadcast_dim_def split: if_splits)
      show ?thesis
      proof (cases "broadcast_dim (2 * u3) a")
        case None
        then show ?thesis using bad Some by (simp add: chain_def)
      next
        case s2: (Some u2)
        then have u2: "u2 = 4 * c" using c u3 by (auto simp: broadcast_dim_def split: if_splits)
        have a: "a = 4 * c \<or> a = 1" using s2 c u3 by (auto simp: broadcast_dim_def split: if_splits)
        have n8: "n \<noteq> 8 * c" using bad by auto
        have "8 * c \<noteq> 1" by presburger
        then have "broadcast_dim (2 * u2) n = None"
          using bad n8 u2 by (simp add: broadcast_dim_def)
        then show ?thesis using bad Some s2 by (simp add: chain_def)
      qed
    qed
  qed
qed

lemma skip_dim_eq:
  assumes "0 < n"
  shows "skip_dim n = (if 8 dvd n then Some n else if n = 1 then Some 8 else None)"
proof -
  have p1: "0 < down n" using assms by (rule down_pos)
  have p2: "0 < down (down n)" using p1 by (rule down_pos)
  show ?thesis
    unfolding skip_dim_def
    by (rule chain_eq[OF assms down_eq[OF assms] down_eq[OF p1] down_eq[OF p2]])
qed

section \<open>Shape and failure of the denoiser\<close>

lemma Denoiser_forward_result:
  assumes init: "Denoiser_init sd name nf 3 act = Inr d"
    and x: "shape x = [B, 1, H, W]" and pos: "0 < B" "0 < H" "0 < W"
  obtains (fail) "skip_dim H = None \<or> skip_dim W = None"
      "Denoiser_forward d x = Inl (RuntimeError BroadcastMismatch)"
    | (ok) u v y where "skip_dim H = Some u" "skip_dim W = Some v"
      "Denoiser_forward d x = Inr y" "shape y = [B, 1, u, v]"
proof -
  note p = Denoiser_init_props[OF init]
  define F where "F = nat nf"
  have F: "0 < F" using p by (simp add: F_def)
  from p obtain bname where b: "MultiHeadSelfAttention_init sd bname nf 4 = Inr (bottleneck d)"
    by blast
  note bp = MultiHeadSelfAttention_init_props[OF b]
  have hd: "num_heads (bottleneck d) * head_dim (bottleneck d) = F"
    using bp heads_times_dim[of nf] by (simp add: F_def)
  have c1: "in_channels (conv1 d) = 1" "out_channels (conv1 d) = F" "kernel_size (conv1 d) = 3"
      "stride (conv1 d) = 1" "padding (conv1 d) = 1"
    and c2: "in_channels (conv2 d) = F" "out_channels (conv2 d) = F" "kernel_size (conv2 d) = 3"
      "stride (conv2 d) = 2" "padding (conv2 d) = 1"
    and c3: "in_channels (conv3 d) = F" "out_channels (conv3 d) = F" "kernel_size (conv3 d) = 3"
      "stride (conv3 d) = 2" "padding (conv3 d) = 1"
    and c4: "in_channels (conv4 d) = F" "out_channels (conv4 d) = F" "kernel_size (conv4 d) = 3"
      "stride (conv4 d) = 2" "padding (conv4 d) = 1"
    and r: "in_channels (res_layer d) = F" "out_channels (res_layer d) = 1"
       "kernel_size (res_layer d) = 3" "stride (res_layer d) = 1" "padding (res_layer d) = 1"
    and o: "in_channels (output_layer d) = 1" "out_channels (output_layer d) = 1"
       "kernel_size (output_layer d) = 3" "stride (output_layer d) = 1" "padding (output_layer d) = 1"
    using p by (simp_all add: F_def)
  let ?act = "tensor_map (activation d)"
  have s1: "conv_out H 3 1 1 = H" "conv_out W 3 1 1 = W"
    by (rule same_eq[OF pos(2)], rule same_eq[OF pos(3)])
  obtain y1 where y1: "Conv2d_forward (conv1 d) x = Inr y1" "shape y1 = [B, F, H, W]"
    using Conv2d_forward_shape[OF x c1(1)] c1 pos s1 by auto
  have x1: "shape (?act y1) = [B, F, H, W]" using y1 by simp
  obtain y2 where y2: "Conv2d_forward (conv2 d) (?act y1) = Inr y2" "shape y2 = [B, F, down H, down W]"
    using Conv2d_forward_shape[OF x1 c2(1)] c2 pos by (auto simp: down_def)
  have x2: "shape (?act y2) = [B, F, down H, down W]" using y2 by simp
  have p2: "0 < down H" "0 < down W" using pos by (simp_all add: down_pos)
  obtain y3 where y3: "Conv2d_forward (conv3 d) (?act y2) = Inr y3"
      "shape y3 = [B, F, down (down H), down (down W)]"
    using Conv2d_forward_shape[OF x2 c3(1)] c3 p2 by (auto simp: down_def)
  have x3: "shape (?act y3) = [B, F, down (down H), down (down W)]" using y3 by simp
  have p3: "0 < down (down H)" "0 < down (down W)" using p2 by (simp_all add: down_pos)
  obtain y4 where y4: "Conv2d_forward (conv4 d) (?act y3) = Inr y4"
      "shape y4 = [B, F, down (down (down H)), down (down (down W))]"
    using Conv2d_forward_shape[OF x3 c4(1)] c4 p3 by (auto simp: down_def)
  have x4: "shape (?act y4) = [B, F, down (down (down H)), down (down (down W))]" using y4 by simp
  have p4: "0 < down (down (down H))" "0 < down (down (down W))"
    using p3 by (simp_all add: down_pos)
  obtain a where a: "MultiHeadSelfAttention_forward (bottleneck d) (?act y4) = Inr a"
      "shape a = [B, F, down (down (down H)), down (down (down W))]"
    using MultiHeadSelfAttention_forward_shape[OF x4, of "bottleneck d"] pos p4 F bp hd
    by (auto simp: F_def)
  have fw: "Denoiser_forward d x = Denoiser_decode d (?act y1) (?act y2) (?act y3) a"
    using y1 y2 y3 y4 a by (simp add: Denoiser_forward_def Let_def)
  show ?thesis
  proof (cases rule: Denoiser_decode_result[OF x1 x2 x3 a(2) p4 r o])
    case 1
    then show ?thesis using fail by (simp add: fw skip_dim_def)
  next
    case (2 u v y)
    then show ?thesis using ok[of u v y] by (simp add: fw skip_dim_def)
  qed
qed

section \<open>Reading a built tensor\<close>

lemma length_indices: "length (indices s) = prod_list s"
proof (induction s)
  case Nil
  show ?case by simp
next
  case (Cons n ns)
  have "length (concat (map (\<lambda>i. map ((#) i) (indices ns)) [0..<n])) = n * prod_list ns"
    by (simp add: length_concat comp_def Cons.IH sum_list_triv)
  then show ?case by simp
qed

lemma nth_concat_blocks:
  assumes "\<forall>xs\<in>set xss. length xs = m" "i < length xss" "k < m"
  shows "concat xss ! (i * m + k) = xss ! i ! k"
  using assms
proof (induction xss arbitrary: i)
  case Nil
  then show ?case by simp
next
  case (Cons xs xss)
  have len: "length xs = m" using Cons.prems by simp
  show ?case
  proof (cases i)
    case 0
    then show ?thesis using Cons.prems len by (simp add: nth_append)
  next
    case (Suc j)
    have "concat (xs # xss) ! (i * m + k) = concat xss ! (j * m + k)"
      using Suc len by (simp add: nth_append)
    also have "\<dots> = xss ! j ! k"
      using Cons.IH[of j] Cons.prems Suc by simp
    finally show ?thesis using Suc by simp
  qed
qed

lemma flat_index_bound:
  "list_all2 (<) idx s \<Longrightarrow> flat_index s idx < prod_list s"
proof (induction s arbitrary: idx)
  case Nil
  then show ?case by simp
next
  case (Cons n ns)
  then obtain i js where idx: "idx = i # js" and i: "i < n" and js: "list_all2 (<) js ns"
    by (auto simp: list_all2_Cons2)
  have f: "flat_index ns js < prod_list ns" using Cons.IH[OF js] .
  have "i * prod_list ns + flat_index ns js < (i + 1) * prod_list ns"
    using f by simp
  also have "\<dots> \<le> n * prod_list ns" using i by (intro mult_le_mono1) simp
  finally show ?case by (simp add: idx)
qed

lemma indices_nth:
  "list_all2 (<) idx s \<Longrightarrow> indices s ! flat_index s idx = idx"
proof (induction s arbitrary: idx)
  case Nil
  then show ?case by simp
next
  case (Cons n ns)
  then obtain i js where idx: "idx = i # js" and i: "i < n" and js: "list_all2 (<) js ns"
    by (auto simp: list_all2_Cons2)
  let ?xss = "map (\<lambda>i. map ((#) i) (indices ns)) [0..<n]"
  have f: "flat_index ns js < prod_list ns" using flat_index_bound[OF js] .
  have "concat ?xss ! (i * prod_list ns + flat_index ns js) = ?xss ! i ! flat_index ns js"
    by (rule nth_concat_blocks) (use i f in \<open>auto simp: length_indices\<close>)
  also have "\<dots> = i # indices ns ! flat_index ns js"
    using i f by (simp add: length_indices)
  finally show ?case using Cons.IH[OF js] by (simp add: idx)
qed

lemma elem_at_build:
  assumes "list_all2 (<) idx s"
  shows "elem_at (build s f) idx = f idx"
  using flat_index_bound[OF assms] indices_nth[OF assms]
  by (simp add: elem_at_def build_def length_indices)

section \<open>The colour conversion, the split and the concatenation\<close>

lemma upt3: "[0..<3] = [0, 1, 2]" by (simp add: upt_rec)

lemma select_channel_shape:
  assumes "shape img = [B, C, H, W]" "i < C"
  shows "\<exists>r. select_channel i img = Inr r \<and> shape r = [B, H, W]"
  using assms by (simp add: select_channel_def)

lemma select_channel_fail:
  assumes "shape img = [B, C, H, W]" "C \<le> i"
  shows "select_channel i img = Inl IndexError"
  using assms by (simp add: select_channel_def)

lemma shape_lincomb3 [simp]: "shape (lincomb3 c1 a c2 b c3 c) = shape a"
  by (simp add: lincomb3_def)

lemma shape_signed_cbrt [simp]: "shape (signed_cbrt t) = shape t"
  by (simp add: signed_cbrt_def)

lemma shape_gamma_correction [simp]: "shape (gamma_correction t g) = shape t"
  by (simp add: gamma_correction_def torch_pow_def add_scalar_def torch_clamp_def)

lemma torch_stack3_shape:
  assumes "shape a = [B, H, W]" "shape b = [B, H, W]" "shape c = [B, H, W]"
  shows "\<exists>t. torch_stack [a, b, c] = Inr t \<and> shape t = [B, 3, H, W]"
  using assms by (simp add: torch_stack_def)

lemma rgb_to_oklab_shape:
  assumes "shape img = [B, C, H, W]" "3 \<le> C"
  shows "\<exists>t. rgb_to_oklab img = Inr t \<and> shape t = [B, 3, H, W]"
proof -
  obtain r where r: "select_channel 0 img = Inr r" "shape r = [B, H, W]"
    using select_channel_shape[OF assms(1), of 0] assms(2) by auto
  obtain g where g: "select_channel 1 img = Inr g" "shape g = [B, H, W]"
    using select_channel_shape[OF assms(1), of 1] assms(2) by auto
  obtain b where b: "select_channel 2 img = Inr b" "shape b = [B, H, W]"
    using select_channel_shape[OF assms(1), of 2] assms(2) by auto
  show ?thesis
    unfolding rgb_to_oklab_def
    using r g b by (simp add: Let_def torch_stack3_shape)
qed

lemma rgb_to_oklab_fail:
  assumes "shape img = [B, C, H, W]" "C < 3"
  shows "rgb_to_oklab img = Inl IndexError"
proof -
  consider "C = 0" | "C = 1" | "C = 2" using assms(2) by linarith
  then show ?thesis
  proof cases
    case 1
    then show ?thesis
      using select_channel_fail[OF assms(1), of 0] by (simp add: rgb_to_oklab_def)
  next
    case 2
    obtain r where "select_channel 0 img = Inr r"
      using select_channel_shape[OF assms(1), of 0] 2 by auto
    then show ?thesis
      using select_channel_fail[OF assms(1), of 1] 2 by (simp add: rgb_to_oklab_def)
  next
    case 3
    obtain r where r: "select_channel 0 img = Inr r"
      using select_channel_shape[OF assms(1), of 0] 3 by auto
    obtain g where g: "select_channel 1 img = Inr g"
      using select_channel_shape[OF assms(1), of 1] 3 by auto
    show ?thesis
      using select_channel_fail[OF assms(1), of 2] 3 r g by (simp add: rgb_to_oklab_def)
  qed
qed

lemma torch_split3:
  assumes "shape t = [B, 3, H, W]"
  shows "\<exists>y cb cr. torch_split t = Inr [y, cb, cr]
           \<and> shape y = [B, 1, H, W] \<and> shape cb = [B, 1, H, W] \<and> shape cr = [B, 1, H, W]
           \<and> (\<forall>b<B. \<forall>i<H. \<forall>j<W.
                 elem_at y [b, 0, i, j] = elem_at t [b, 0, i, j]
               \<and> elem_at cb [b, 0, i, j] = elem_at t [b, 1, i, j]
               \<and> elem_at cr [b, 0, i, j] = elem_at t [b, 2, i, j])"
  using assms by (simp add: torch_split_def upt3 elem_at_build numeral_2_eq_2)

lemma torch_cat3_shape:
  assumes "shape a = [B, 1, H, W]" "shape b = [B, 1, H, W]" "shape c = [B, 1, H, W]"
  shows "\<exists>t. torch_cat [a, b, c] = Inr t \<and> shape t = [B, 3, H, W]"
  using assms by (simp add: torch_cat_def)

lemma GammaUnet_init_props:
  assumes "GammaUnet_init sd nf = Inr m"
  shows "gamma m = 4 / 10
     \<and> (\<exists>n. Denoiser_init sd n nf 3 relu = Inr (denoiser_y m))
     \<and> (\<exists>n. Denoiser_init sd n nf 3 relu = Inr (denoiser_cb m))
     \<and> (\<exists>n. Denoiser_init sd n nf 3 relu = Inr (denoiser_cr m))
     \<and> in_channels (final_conv m) = 3 \<and> out_channels (final_conv m) = 3
     \<and> kernel_size (final_conv m) = 3 \<and> stride (final_conv m) = 1 \<and> padding (final_conv m) = 1"
proof -
  from assms obtain dy dcb dcr fc where
    d: "Denoiser_init sd ''denoiser_y'' nf 3 relu = Inr dy"
       "Denoiser_init sd ''denoiser_cb'' nf 3 relu = Inr dcb"
       "Denoiser_init sd ''denoiser_cr'' nf 3 relu = Inr dcr"
    and fc: "Conv2d_init sd ''final_conv'' 3 3 3 1 1 = Inr fc"
    and m: "m = \<lparr>denoiser_y = dy, denoiser_cb = dcb, denoiser_cr = dcr, final_conv = fc,
            gamma = 4 / 10\<rparr>"
    unfolding GammaUnet_init_def and_then_eq_Inr by auto
  show ?thesis
    using d Conv2d_init_props[OF fc] by (auto simp: m)
qed

section \<open>Shape and failure of the whole network\<close>

lemma denoiser_inputs_result:
  assumes x: "shape x = [B, C, H, W]" and C: "3 \<le> C"
  shows "\<exists>ycbcr y cb cr. rgb_to_oklab x = Inr ycbcr \<and> torch_split ycbcr = Inr [y, cb, cr]
      \<and> denoiser_inputs m x = Inr (gamma_correction y (gamma m), gamma_correction cb (gamma m), cr)
      \<and> shape y = [B, 1, H, W] \<and> shape cb = [B, 1, H, W] \<and> shape cr = [B, 1, H, W]
      \<and> shape ycbcr = [B, 3, H, W]
      \<and> (\<forall>b<B. \<forall>i<H. \<forall>j<W. elem_at cr [b, 0, i, j] = elem_at ycbcr [b, 2, i, j])"
proof -
  obtain t where t: "rgb_to_oklab x = Inr t" "shape t = [B, 3, H, W]"
    using rgb_to_oklab_shape[OF x C] by auto
  from torch_split3[OF t(2)] obtain y cb cr where
    s: "torch_split t = Inr [y, cb, cr]" "shape y = [B, 1, H, W]" "shape cb = [B, 1, H, W]"
       "shape cr = [B, 1, H, W]"
       "\<forall>b<B. \<forall>i<H. \<forall>j<W. elem_at cr [b, 0, i, j] = elem_at t [b, 2, i, j]"
    by blast
  show ?thesis using t s by (simp add: denoiser_inputs_def)
qed

lemma GammaUnet_forward_result:
  assumes init: "GammaUnet_init sd nf = Inr m"
    and x: "shape x = [B, C, H, W]" and C: "3 \<le> C" and pos: "0 < B" "0 < H" "0 < W"
  obtains (fail) "skip_dim H = None \<or> skip_dim W = None"
      "GammaUnet_forward m x = Inl (RuntimeError BroadcastMismatch)"
    | (ok) u v y where "skip_dim H = Some u" "skip_dim W = Some v"
      "GammaUnet_forward m x = Inr y" "shape y = [B, 3, u, v]"
proof -
  note p = GammaUnet_init_props[OF init]
  from p obtain n1 n2 n3 where
    d: "Denoiser_init sd n1 nf 3 relu = Inr (denoiser_y m)"
       "Denoiser_init sd n2 nf 3 relu = Inr (denoiser_cb m)"
       "Denoiser_init sd n3 nf 3 relu = Inr (denoiser_cr m)"
    by blast
  have fc: "in_channels (final_conv m) = 3" "out_channels (final_conv m) = 3"
    "kernel_size (final_conv m) = 3" "stride (final_conv m) = 1" "padding (final_conv m) = 1"
    using p by simp_all
  from denoiser_inputs_result[OF x C, of m] obtain y cb cr where
    i: "denoiser_inputs m x = Inr (gamma_correction y (gamma m), gamma_correction cb (gamma m), cr)"
      "shape y = [B, 1, H, W]" "shape cb = [B, 1, H, W]" "shape cr = [B, 1, H, W]"
    by blast
  let ?y = "gamma_correction y (gamma m)" and ?cb = "gamma_correction cb (gamma m)"
  have sy: "shape ?y = [B, 1, H, W]" and scb: "shape ?cb = [B, 1, H, W]"
    using i by simp_all
  show ?thesis
  proof (cases rule: Denoiser_forward_result[OF d(1) sy pos])
    case 1
    then show ?thesis
      using fail by (simp add: GammaUnet_forward_def i denoise_and_fuse_def)
  next
    case a: (2 u v yd)
    show ?thesis
    proof (cases rule: Denoiser_forward_result[OF d(2) scb pos])
      case 1
      then show ?thesis using a by auto
    next
      case b: (2 u' v' cbd)
      show ?thesis
      proof (cases rule: Denoiser_forward_result[OF d(3) i(4) pos])
        case 1
        then show ?thesis using a by auto
      next
        case c: (2 u'' v'' crd)
        have uv: "u' = u" "v' = v" "u'' = u" "v'' = v" using a b c by simp_all
        have upos: "0 < u" "0 < v"
          using a(1,2) pos by (auto simp: skip_dim_eq split: if_splits)
        from torch_cat3_shape[of yd B u v cbd crd] a b c uv
        obtain comb where comb: "torch_cat [yd, cbd, crd] = Inr comb" "shape comb = [B, 3, u, v]"
          by auto
        have co: "conv_out u 3 1 1 = u" "conv_out v 3 1 1 = v"
          by (rule same_eq[OF upos(1)], rule same_eq[OF upos(2)])
        from Conv2d_forward_shape[OF comb(2) fc(1)] fc upos co
        obtain out where out: "Conv2d_forward (final_conv m) comb = Inr out"
          "shape out = [B, 3, u, v]"
          by auto
        show ?thesis
          using a b c comb out
          by (intro ok[of u v "tensor_map torch_sigmoid out"])
             (simp_all add: GammaUnet_forward_def i denoise_and_fuse_def)
      qed
    qed
  qed
qed

lemma example_denoiser_init:
  "Denoiser_init zero_params ''denoiser'' 4 3 relu = Inr example_denoiser"
  by (simp add: example_denoiser_def Denoiser_init_def Conv2d_init_def
      MultiHeadSelfAttention_init_def Linear_init_def)

lemma example_net_init: "GammaUnet_init zero_params 4 = Inr example_net"
  by (simp add: example_net_def GammaUnet_init_def Denoiser_init_def Conv2d_init_def
      MultiHeadSelfAttention_init_def Linear_init_def)

lemma varied_net_init: "GammaUnet_init varied_params 4 = Inr varied_net"
  by (simp add: varied_net_def GammaUnet_init_def Denoiser_init_def Conv2d_init_def
      MultiHeadSelfAttention_init_def Linear_init_def)




lemma shape_example_image: "shape example_image = [1, 3, 8, 8]"
  by (simp add: example_image_def)


section \<open>Inputs without elements\<close>

lemma MultiHeadSelfAttention_forward_empty_batch:
  assumes "shape x = [0, E, h, w]"
  shows "MultiHeadSelfAttention_forward m x = Inl (RuntimeError ReshapeInvalid)"
  using assms
  by (simp add: MultiHeadSelfAttention_forward_def size4_def flatten_spatial_def reshape_def)

lemma Denoiser_forward_empty_height:
  assumes "Denoiser_init sd name nf 3 act = Inr d" and "shape x = [B, 1, 0, W]"
  shows "Denoiser_forward d x = Inl (RuntimeError ConvInput)"
  using Denoiser_init_props[OF assms(1)] assms(2)
  by (simp add: Denoiser_forward_def Conv2d_forward_def)

lemma Denoiser_forward_empty_batch:
  assumes init: "Denoiser_init sd name nf 3 act = Inr d"
    and x: "shape x = [0, 1, H, W]" and pos: "0 < H" "0 < W"
  shows "Denoiser_forward d x = Inl (RuntimeError ReshapeInvalid)"
proof -
  note p = Denoiser_init_props[OF init]
  define F where "F = nat nf"
  have c1: "in_channels (conv1 d) = 1" "out_channels (conv1 d) = F" "kernel_size (conv1 d) = 3"
      "stride (conv1 d) = 1" "padding (conv1 d) = 1"
    and c2: "in_channels (conv2 d) = F" "out_channels (conv2 d) = F" "kernel_size (conv2 d) = 3"
      "stride (conv2 d) = 2" "padding (conv2 d) = 1"
    and c3: "in_channels (conv3 d) = F" "out_channels (conv3 d) = F" "kernel_size (conv3 d) = 3"
      "stride (conv3 d) = 2" "padding (conv3 d) = 1"
    and c4: "in_channels (conv4 d) = F" "out_channels (conv4 d) = F" "kernel_size (conv4 d) = 3"
      "stride (conv4 d) = 2" "padding (conv4 d) = 1"
    using p by (simp_all add: F_def)
  let ?act = "tensor_map (activation d)"
  have s1: "conv_out H 3 1 1 = H" "conv_out W 3 1 1 = W"
    by (rule same_eq[OF pos(1)], rule same_eq[OF pos(2)])
  obtain y1 where y1: "Conv2d_forward (conv1 d) x = Inr y1" "shape y1 = [0, F, H, W]"
    using Conv2d_forward_shape[OF x c1(1)] c1 pos s1 by auto
  have x1: "shape (?act y1) = [0, F, H, W]" using y1 by simp
  obtain y2 where y2: "Conv2d_forward (conv2 d) (?act y1) = Inr y2" "shape y2 = [0, F, down H, down W]"
    using Conv2d_forward_shape[OF x1 c2(1)] c2 pos by (auto simp: down_def)
  have x2: "shape (?act y2) = [0, F, down H, down W]" using y2 by simp
  have p2: "0 < down H" "0 < down W" using pos by (simp_all add: down_pos)
  obtain y3 where y3: "Conv2d_forward (conv3 d) (?act y2) = Inr y3"
      "shape y3 = [0, F, down (down H), down (down W)]"
    using Conv2d_forward_shape[OF x2 c3(1)] c3 p2 by (auto simp: down_def)
  have x3: "shape (?act y3) = [0, F, down (down H), down (down W)]" using y3 by simp
  have p3: "0 < down (down H)" "0 < down (down W)" using p2 by (simp_all add: down_pos)
  obtain y4 where y4: "Conv2d_forward (conv4 d) (?act y3) = Inr y4"
      "shape y4 = [0, F, down (down (down H)), down (down (down W))]"
    using Conv2d_forward_shape[OF x3 c4(1)] c4 p3 by (auto simp: down_def)
  have x4: "shape (?act y4) = [0, F, down (down (down H)), down (down (down W))]"
    using y4 by simp
  show ?thesis
    using y1 y2 y3 y4 MultiHeadSelfAttention_forward_empty_batch[OF x4]
    by (simp add: Denoiser_forward_def Let_def)
qed

lemma GammaUnet_forward_first_failure:
  assumes "shape x = [B, C, H, W]" and "3 \<le> C"
    and "\<And>y. shape y = [B, 1, H, W] \<Longrightarrow> Denoiser_forward (denoiser_y m) y = Inl e"
  shows "GammaUnet_forward m x = Inl e"
proof -
  from denoiser_inputs_result[OF assms(1,2), of m] obtain y cb cr where
    i: "denoiser_inputs m x = Inr (gamma_correction y (gamma m), gamma_correction cb (gamma m), cr)"
      "shape y = [B, 1, H, W]"
    by blast
  have "Denoiser_forward (denoiser_y m) (gamma_correction y (gamma m)) = Inl e"
    using i(2) by (intro assms(3)) simp
  then show ?thesis by (simp add: GammaUnet_forward_def i(1) denoise_and_fuse_def)
qed

lemma GammaUnet_forward_empty_height:
  assumes "GammaUnet_init sd nf = Inr m" and "shape x = [B, 3, 0, W]"
  shows "GammaUnet_forward m x = Inl (RuntimeError ConvInput)"
proof -
  from GammaUnet_init_props[OF assms(1)] obtain n where
    d: "Denoiser_init sd n nf 3 relu = Inr (denoiser_y m)" by blast
  show ?thesis
    by (rule GammaUnet_forward_first_failure[OF assms(2) order_refl])
       (rule Denoiser_forward_empty_height[OF d])
qed

lemma GammaUnet_forward_empty_batch:
  assumes "GammaUnet_init sd nf = Inr m" and "shape x = [0, 3, H, W]" and "0 < H" "0 < W"
  shows "GammaUnet_forward m x = Inl (RuntimeError ReshapeInvalid)"
proof -
  from GammaUnet_init_props[OF assms(1)] obtain n where
    d: "Denoiser_init sd n nf 3 relu = Inr (denoiser_y m)" by blast
  show ?thesis
    by (rule GammaUnet_forward_first_failure[OF assms(2) order_refl])
       (rule Denoiser_forward_empty_batch[OF d _ assms(3,4)])
qed

section \<open>The last layer and its squashing function\<close>












section \<open>Shape preservation\<close>

text \<open>
  Claim C3, amended. For every input of shape \<open>(B, 3, H, W)\<close> with at least one image
  (\<open>B\<close> positive) and with \<open>H\<close> and \<open>W\<close> positive multiples of 8, \<open>GammaUnet.forward\<close>
  returns an output of exactly the input's shape. The network is any \<open>GammaUnet\<close> that
  its constructor returned, with any parameter values.
\<close>

theorem C3_shape_preservation:
  assumes "GammaUnet_init sd nf = Inr m" and "shape x = [B, 3, H, W]"
    and "0 < B" "0 < H" "0 < W" "8 dvd H" "8 dvd W"
  shows "\<exists>y. GammaUnet_forward m x = Inr y \<and> shape y = shape x"
proof (cases rule: GammaUnet_forward_result[OF assms(1,2) order_refl assms(3-5)])
  case 1
  then show ?thesis using assms by (simp add: skip_dim_eq)
next
  case (2 u v y)
  then show ?thesis using assms by (simp add: skip_dim_eq)
qed

theorem C3_shape_preservation_witness:
  "GammaUnet_init zero_params 4 = Inr example_net
   \<and> shape \<lparr>shape = [1, 3, 8, 8], data = replicate 192 (1 / 2 :: real)\<rparr> = [1, 3, 8, 8]
   \<and> (0::nat) < 1 \<and> (0::nat) < 8 \<and> (8::nat) dvd 8
   \<and> (\<exists>y. GammaUnet_forward example_net \<lparr>shape = [1, 3, 8, 8], data = replicate 192 (1 / 2)\<rparr> = Inr y
          \<and> shape y = [1, 3, 8, 8])"
  using C3_shape_preservation[OF example_net_init,
      of "\<lparr>shape = [1, 3, 8, 8], data = replicate 192 (1 / 2)\<rparr>" 1 8 8]
    example_net_init
  by simp

text \<open>
  The claim as written fails for the multiple 0 of 8 and for an empty batch. On an input
  of shape \<open>(1, 3, 0, 8)\<close> the first convolution of the first denoiser refuses its
  operand, whose padded height 2 is below the kernel size 3. On an input of shape
  \<open>(0, 3, 8, 8)\<close> the four convolutions pass and the attention block of the first
  denoiser fails at \<open>x.reshape(batch_size, height * width, -1)\<close>, which cannot infer a
  dimension of a tensor without elements. No output is returned in either case.
\<close>

theorem C3_counterexample:
  "(8::nat) dvd 0 \<and> (8::nat) dvd 8
   \<and> GammaUnet_init zero_params 4 = Inr example_net
   \<and> GammaUnet_forward example_net \<lparr>shape = [1, 3, 0, 8], data = []\<rparr>
       = Inl (RuntimeError ConvInput)
   \<and> GammaUnet_forward example_net \<lparr>shape = [0, 3, 8, 8], data = []\<rparr>
       = Inl (RuntimeError ReshapeInvalid)"
proof -
  have a: "GammaUnet_forward example_net \<lparr>shape = [1, 3, 0, 8], data = []\<rparr>
       = Inl (RuntimeError ConvInput)"
    by (rule GammaUnet_forward_empty_height[OF example_net_init, of _ 1 8]) simp
  have b: "GammaUnet_forward example_net \<lparr>shape = [0, 3, 8, 8], data = []\<rparr>
       = Inl (RuntimeError ReshapeInvalid)"
    by (rule GammaUnet_forward_empty_batch[OF example_net_init, of _ 8 8]) simp_all
  show ?thesis using a b example_net_init by simp
qed

section \<open>Spatial sizes that are not multiples of 8\<close>

text \<open>
  Claim C8, amended. On a single-channel input with at least one image and one pixel, one
  of whose spatial sizes is neither a multiple of 8 nor equal to 1, \<open>Denoiser.forward\<close>
  (of a denoiser built with the default kernel size 3, any filter count and activation)
  fails with the shape mismatch of a skip-connection addition and returns no output; the
  input of shape \<open>(1, 1, 10, 10)\<close> is such an input. The additions at the skip connections
  are the only places of \<open>Denoiser.forward\<close> that raise the broadcasting failure.
\<close>

theorem C8_skip_misalignment:
  assumes "Denoiser_init sd name nf 3 act = Inr d" and "shape x = [B, 1, H, W]"
    and "0 < B" "0 < H" "0 < W"
    and "(\<not> 8 dvd H \<and> H \<noteq> 1) \<or> (\<not> 8 dvd W \<and> W \<noteq> 1)"
  shows "Denoiser_forward d x = Inl (RuntimeError BroadcastMismatch)"
proof (cases rule: Denoiser_forward_result[OF assms(1-5)])
  case 1
  then show ?thesis by simp
next
  case (2 u v y)
  then show ?thesis using assms(4-6) by (auto simp: skip_dim_eq split: if_splits)
qed

theorem C8_skip_misalignment_witness:
  "Denoiser_init zero_params ''denoiser'' 4 3 relu = Inr example_denoiser
   \<and> shape \<lparr>shape = [1, 1, 10, 10], data = replicate 100 (1 / 2 :: real)\<rparr> = [1, 1, 10, 10]
   \<and> (0::nat) < 1 \<and> (0::nat) < 10 \<and> \<not> (8::nat) dvd 10 \<and> (10::nat) \<noteq> 1
   \<and> Denoiser_forward example_denoiser \<lparr>shape = [1, 1, 10, 10], data = replicate 100 (1 / 2)\<rparr>
       = Inl (RuntimeError BroadcastMismatch)"
  using C8_skip_misalignment[OF example_denoiser_init,
      of "\<lparr>shape = [1, 1, 10, 10], data = replicate 100 (1 / 2)\<rparr>" 1 10 10]
    example_denoiser_init
  by simp

text \<open>
  The claim as written fails for a spatial size of 1, which is not a multiple of 8: a
  size of 1 is broadcast at all three skip additions, and the input of shape
  \<open>(1, 1, 1, 1)\<close> comes back, without any error, as an output of shape \<open>(1, 1, 8, 8)\<close>.
\<close>

theorem C8_counterexample:
  "\<not> (8::nat) dvd 1
   \<and> \<not> isl (Denoiser_forward example_denoiser \<lparr>shape = [1, 1, 1, 1], data = [1 / 2]\<rparr>)
   \<and> shape (projr (Denoiser_forward example_denoiser \<lparr>shape = [1, 1, 1, 1], data = [1 / 2]\<rparr>))
       = [1, 1, 8, 8]"
proof -
  let ?x = "\<lparr>shape = [1, 1, 1, 1], data = [1 / 2 :: real]\<rparr>"
  have x: "shape ?x = [1, 1, 1, 1]" by simp
  show ?thesis
  proof (cases rule: Denoiser_forward_result[OF example_denoiser_init x])
    case 4
    then show ?thesis by (simp add: skip_dim_eq)
  next
    case (5 u v y)
    then show ?thesis by (simp add: skip_dim_eq)
  qed simp_all
qed

section \<open>Channel counts other than 3\<close>

text \<open>
  Claim C9, amended. Called on an input with fewer than 3 channels, \<open>GammaUnet.forward\<close>
  fails at call time with the index error of the channel slicing in \<open>_rgb_to_oklab\<close>,
  whatever the parameters are.
\<close>

theorem C9_too_few_channels:
  assumes "shape x = [B, C, H, W]" and "C < 3"
  shows "GammaUnet_forward m x = Inl IndexError"
  using rgb_to_oklab_fail[OF assms]
  by (simp add: GammaUnet_forward_def denoiser_inputs_def)

theorem C9_too_few_channels_witness:
  "shape \<lparr>shape = [1, 2, 8, 8], data = replicate 128 (1 / 2 :: real)\<rparr> = [1, 2, 8, 8]
   \<and> (2::nat) < 3
   \<and> GammaUnet_forward example_net \<lparr>shape = [1, 2, 8, 8], data = replicate 128 (1 / 2)\<rparr>
       = Inl IndexError"
  using C9_too_few_channels[of "\<lparr>shape = [1, 2, 8, 8], data = replicate 128 (1 / 2)\<rparr>" 1 2 8 8
      example_net]
  by simp

text \<open>
  The claim as written fails for more than 3 channels: \<open>_rgb_to_oklab\<close> reads the
  channels 0, 1 and 2 and never looks at the size of dimension 1, so an input of shape
  \<open>(1, 4, 8, 8)\<close> is accepted and gives an output of shape \<open>(1, 3, 8, 8)\<close>.
\<close>

theorem C9_counterexample:
  "(4::nat) \<noteq> 3
   \<and> \<not> isl (GammaUnet_forward example_net \<lparr>shape = [1, 4, 8, 8], data = replicate 256 (1 / 2)\<rparr>)
   \<and> shape (projr (GammaUnet_forward example_net
                \<lparr>shape = [1, 4, 8, 8], data = replicate 256 (1 / 2)\<rparr>)) = [1, 3, 8, 8]"
proof -
  let ?x = "\<lparr>shape = [1, 4, 8, 8], data = replicate 256 (1 / 2 :: real)\<rparr>"
  have x: "shape ?x = [1, 4, 8, 8]" by simp
  show ?thesis
  proof (cases rule: GammaUnet_forward_result[OF example_net_init x])
    case 5
    then show ?thesis by (simp add: skip_dim_eq)
  next
    case (6 u v y)
    then show ?thesis by (simp add: skip_dim_eq)
  qed simp_all
qed

section \<open>The asymmetric gamma correction\<close>

text \<open>
  Claim C6. In \<open>GammaUnet.forward\<close> the gamma correction, with the fixed exponent 0.4, is
  applied to channel 0 and channel 1 of the converted image only. With \<open>ycbcr\<close> the
  converter's output and \<open>y\<close>, \<open>cb\<close>, \<open>cr\<close> the three chunks that \<open>torch.split\<close> cuts
  from it, the result of \<open>forward\<close> is the result of calling \<open>denoiser_y\<close> on the
  corrected \<open>y\<close>, \<open>denoiser_cb\<close> on the corrected \<open>cb\<close> and \<open>denoiser_cr\<close> on \<open>cr\<close>
  itself, followed by the concatenation, the final convolution and the sigmoid. Every
  chunk holds, element by element, the values of its channel of the converter's output,
  so what reaches \<open>denoiser_cr\<close> are the values of channel 2 unchanged, with no gamma
  correction applied.
\<close>

theorem C6_asymmetric_correction:
  assumes "GammaUnet_init sd nf = Inr m" and "shape x = [B, C, H, W]" and "3 \<le> C"
  shows "\<exists>ycbcr y cb cr.
      rgb_to_oklab x = Inr ycbcr \<and> torch_split ycbcr = Inr [y, cb, cr]
      \<and> GammaUnet_forward m x
          = and_then (Denoiser_forward (denoiser_y m) (gamma_correction y (4 / 10))) (\<lambda>y_denoised.
            and_then (Denoiser_forward (denoiser_cb m) (gamma_correction cb (4 / 10))) (\<lambda>cb_denoised.
            and_then (Denoiser_forward (denoiser_cr m) cr) (\<lambda>cr_denoised.
            and_then (torch_cat [y_denoised, cb_denoised, cr_denoised]) (\<lambda>combined.
            and_then (Conv2d_forward (final_conv m) combined) (\<lambda>output.
              Inr (tensor_map torch_sigmoid output))))))
      \<and> shape ycbcr = [B, 3, H, W]
      \<and> shape y = [B, 1, H, W] \<and> shape cb = [B, 1, H, W] \<and> shape cr = [B, 1, H, W]
      \<and> (\<forall>b<B. \<forall>i<H. \<forall>j<W.
            elem_at y [b, 0, i, j] = elem_at ycbcr [b, 0, i, j]
          \<and> elem_at cb [b, 0, i, j] = elem_at ycbcr [b, 1, i, j]
          \<and> elem_at cr [b, 0, i, j] = elem_at ycbcr [b, 2, i, j])"
proof -
  have g: "gamma m = 4 / 10" using GammaUnet_init_props[OF assms(1)] by simp
  obtain t where t: "rgb_to_oklab x = Inr t" "shape t = [B, 3, H, W]"
    using rgb_to_oklab_shape[OF assms(2,3)] by auto
  from torch_split3[OF t(2)] obtain y cb cr where
    s: "torch_split t = Inr [y, cb, cr]"
       "shape y = [B, 1, H, W]" "shape cb = [B, 1, H, W]" "shape cr = [B, 1, H, W]"
       "\<forall>b<B. \<forall>i<H. \<forall>j<W.
            elem_at y [b, 0, i, j] = elem_at t [b, 0, i, j]
          \<and> elem_at cb [b, 0, i, j] = elem_at t [b, 1, i, j]
          \<and> elem_at cr [b, 0, i, j] = elem_at t [b, 2, i, j]"
    by blast
  have "GammaUnet_forward m x
          = and_then (Denoiser_forward (denoiser_y m) (gamma_correction y (4 / 10))) (\<lambda>y_denoised.
            and_then (Denoiser_forward (denoiser_cb m) (gamma_correction cb (4 / 10))) (\<lambda>cb_denoised.
            and_then (Denoiser_forward (denoiser_cr m) cr) (\<lambda>cr_denoised.
            and_then (torch_cat [y_denoised, cb_denoised, cr_denoised]) (\<lambda>combined.
            and_then (Conv2d_forward (final_conv m) combined) (\<lambda>output.
              Inr (tensor_map torch_sigmoid output))))))"
    using t s(1) by (simp add: GammaUnet_forward_def denoiser_inputs_def denoise_and_fuse_def g)
  with t s show ?thesis by blast
qed

theorem C6_asymmetric_correction_witness:
  "GammaUnet_init varied_params 4 = Inr varied_net \<and> shape example_image = [1, 3, 8, 8]
   \<and> (3::nat) \<le> 3 \<and> (0::nat) < 1 \<and> (3::nat) < 8 \<and> (5::nat) < 8
   \<and> (\<exists>ycbcr y cb cr.
        rgb_to_oklab example_image = Inr ycbcr \<and> torch_split ycbcr = Inr [y, cb, cr]
        \<and> GammaUnet_forward varied_net example_image
            = and_then (Denoiser_forward (denoiser_y varied_net) (gamma_correction y (4 / 10)))
                (\<lambda>y_denoised.
              and_then (Denoiser_forward (denoiser_cb varied_net) (gamma_correction cb (4 / 10)))
                (\<lambda>cb_denoised.
              and_then (Denoiser_forward (denoiser_cr varied_net) cr) (\<lambda>cr_denoised.
              and_then (torch_cat [y_denoised, cb_denoised, cr_denoised]) (\<lambda>combined.
              and_then (Conv2d_forward (final_conv varied_net) combined) (\<lambda>output.
                Inr (tensor_map torch_sigmoid output))))))
        \<and> shape cr = [1, 1, 8, 8]
        \<and> elem_at y [0, 0, 3, 5] = elem_at ycbcr [0, 0, 3, 5]
        \<and> elem_at cb [0, 0, 3, 5] = elem_at ycbcr [0, 1, 3, 5]
        \<and> elem_at cr [0, 0, 3, 5] = elem_at ycbcr [0, 2, 3, 5])"
proof -
  let ?run = "\<lambda>y cb cr.
      and_then (Denoiser_forward (denoiser_y varied_net) (gamma_correction y (4 / 10)))
        (\<lambda>y_denoised.
      and_then (Denoiser_forward (denoiser_cb varied_net) (gamma_correction cb (4 / 10)))
        (\<lambda>cb_denoised.
      and_then (Denoiser_forward (denoiser_cr varied_net) cr) (\<lambda>cr_denoised.
      and_then (torch_cat [y_denoised, cb_denoised, cr_denoised]) (\<lambda>combined.
      and_then (Conv2d_forward (final_conv varied_net) combined) (\<lambda>output.
        Inr (tensor_map torch_sigmoid output))))))"
  have "\<exists>ycbcr y cb cr.
        rgb_to_oklab example_image = Inr ycbcr \<and> torch_split ycbcr = Inr [y, cb, cr]
        \<and> GammaUnet_forward varied_net example_image = ?run y cb cr
        \<and> shape cr = [1, 1, 8, 8]
        \<and> elem_at y [0, 0, 3, 5] = elem_at ycbcr [0, 0, 3, 5]
        \<and> elem_at cb [0, 0, 3, 5] = elem_at ycbcr [0, 1, 3, 5]
        \<and> elem_at cr [0, 0, 3, 5] = elem_at ycbcr [0, 2, 3, 5]"
    using C6_asymmetric_correction[OF varied_net_init shape_example_image order_refl]
  proof (elim exE conjE)
    fix ycbcr y cb cr
    assume r: "rgb_to_oklab example_image = Inr ycbcr" "torch_split ycbcr = Inr [y, cb, cr]"
      "GammaUnet_forward varied_net example_image = ?run y cb cr"
      "shape cr = [1, 1, 8, 8]"
      and a: "\<forall>b<1. \<forall>i<8. \<forall>j<8.
            elem_at y [b, 0, i, j] = elem_at ycbcr [b, 0, i, j]
          \<and> elem_at cb [b, 0, i, j] = elem_at ycbcr [b, 1, i, j]
          \<and> elem_at cr [b, 0, i, j] = elem_at ycbcr [b, 2, i, j]"
    have e: "elem_at y [0, 0, 3, 5] = elem_at ycbcr [0, 0, 3, 5]"
      "elem_at cb [0, 0, 3, 5] = elem_at ycbcr [0, 1, 3, 5]"
      "elem_at cr [0, 0, 3, 5] = elem_at ycbcr [0, 2, 3, 5]"
      using a[rule_format, of 0 3 5] by simp_all
    show ?thesis
      by (rule exI[of _ ycbcr], rule exI[of _ y], rule exI[of _ cb], rule exI[of _ cr],
          intro conjI) (rule r e)+
  qed
  then show ?thesis
    using varied_net_init shape_example_image by simp
qed

section \<open>The flattening at the entry of the attention block\<close>

text \<open>
  The two ends of \<open>MultiHeadSelfAttention.forward\<close>, element by element. The last step
  puts feature \<open>f\<close> of token \<open>i * w + j\<close> at channel \<open>f\<close> and position \<open>(i, j)\<close>. The first
  step leaves the storage as it is: feature \<open>f\<close> of token \<open>t\<close> is the element at offset
  \<open>t * F + f\<close> of the image, where channel \<open>c\<close> at position \<open>(i, j)\<close> sits at offset
  \<open>c * (h * w) + (i * w + j)\<close>.
\<close>

lemma unpermute_0312: "unpermute [0, 3, 1, 2] [b, f, i, j] = [b, i, j, f]"
  by (simp add: unpermute_def numeral_3_eq_3 numeral_2_eq_2)

lemma restore_spatial_elem:
  assumes "shape out = [B, h * w, E]" "embed_size m = E"
    and "b < B" "f < E" "i < h" "j < w"
  shows "\<exists>y. restore_spatial m B h w out = Inr y \<and> shape y = [B, E, h, w]
           \<and> elem_at y [b, f, i, j] = elem_at out [b, i * w + j, f]"
proof -
  let ?r = "\<lparr>shape = [B, h, w, E], data = data out\<rparr>"
  have r: "reshape [Some B, Some h, Some w, Some E] out = Inr ?r"
    using reshape_full[of "[Some B, Some h, Some w, Some E]" out] assms(1)
    by (simp add: algebra_simps)
  let ?y = "build [B, E, h, w] (\<lambda>idx. elem_at ?r (unpermute [0, 3, 1, 2] idx))"
  have p: "permute [0, 3, 1, 2] ?r = Inr ?y"
    by (simp add: permute_def upt4)
  have "elem_at ?y [b, f, i, j] = elem_at ?r [b, i, j, f]"
    using assms(3-6) unpermute_0312[of b f i j] by (simp add: elem_at_build)
  also have "\<dots> = elem_at out [b, i * w + j, f]"
    using assms(1) by (simp add: elem_at_def algebra_simps)
  finally show ?thesis
    using r p assms(2) by (simp add: restore_spatial_def)
qed

lemma flatten_spatial_elem:
  assumes "shape x = [B, F, h, w]" "0 < B" "0 < h" "0 < w"
  shows "\<exists>s. flatten_spatial x = Inr s \<and> shape s = [B, h * w, F]
           \<and> elem_at s [b, t, f] = data x ! (b * (F * h * w) + (t * F + f))
           \<and> elem_at x [b, c, i, j] = data x ! (b * (F * h * w) + (c * (h * w) + (i * w + j)))"
  using flatten_spatial_eq[OF assms] assms(1)
  by (simp add: elem_at_def algebra_simps)

text \<open>
  Claim C1, evaluated at a feature map with four channels and two spatial positions.
  The first step of \<open>MultiHeadSelfAttention.forward\<close> gives the sequence shape
  \<open>(1, 2, 4)\<close>, but it is a plain reshape of the channel-first storage: token 0 holds the
  elements 0, 1, 2, 3, while the channel vector of the input at spatial position 0 is
  0, 2, 4, 6. The last step does place feature \<open>f\<close> of token \<open>t\<close> at channel \<open>f\<close> and
  position \<open>t\<close>, so it is not the inverse of the first: applied to the flattened input
  it returns the elements in the order 0, 4, 1, 5, 2, 6, 3, 7 and not the input.
\<close>

theorem C1_flatten_mixes_positions:
  "flatten_spatial example_features
     = Inr \<lparr>shape = [1, 2, 4], data = [0, 1, 2, 3, 4, 5, 6, 7]\<rparr>
   \<and> map (\<lambda>f. elem_at \<lparr>shape = [1, 2, 4], data = [0, 1, 2, 3, 4, 5, 6, 7 :: nat]\<rparr> [0, 0, f])
        [0, 1, 2, 3] = [0, 1, 2, 3]
   \<and> map (\<lambda>c. elem_at example_features [0, c, 0, 0]) [0, 1, 2, 3] = [0, 2, 4, 6]
   \<and> restore_spatial (bottleneck example_denoiser) 1 1 2
        \<lparr>shape = [1, 2, 4], data = [0, 1, 2, 3, 4, 5, 6, 7 :: nat]\<rparr>
     = Inr \<lparr>shape = [1, 4, 1, 2], data = [0, 4, 1, 5, 2, 6, 3, 7]\<rparr>"
proof (intro conjI)
  show "flatten_spatial example_features
     = Inr \<lparr>shape = [1, 2, 4], data = [0, 1, 2, 3, 4, 5, 6, 7]\<rparr>"
    by (simp add: flatten_spatial_def size4_def example_features_def reshape_def)
  show "map (\<lambda>f. elem_at \<lparr>shape = [1, 2, 4], data = [0, 1, 2, 3, 4, 5, 6, 7 :: nat]\<rparr> [0, 0, f])
        [0, 1, 2, 3] = [0, 1, 2, 3]"
    by (simp add: elem_at_def)
  show "map (\<lambda>c. elem_at example_features [0, c, 0, 0]) [0, 1, 2, 3] = [0, 2, 4, 6]"
    by (simp add: elem_at_def example_features_def)
  have e: "embed_size (bottleneck example_denoiser) = 4"
    using Denoiser_init_props[OF example_denoiser_init]
      MultiHeadSelfAttention_init_props by fastforce
  show "restore_spatial (bottleneck example_denoiser) 1 1 2
        \<lparr>shape = [1, 2, 4], data = [0, 1, 2, 3, 4, 5, 6, 7 :: nat]\<rparr>
     = Inr \<lparr>shape = [1, 4, 1, 2], data = [0, 4, 1, 5, 2, 6, 3, 7]\<rparr>"
    unfolding restore_spatial_def e by code_simp
qed

section \<open>Gamma correction: the identity at gamma 1 and the range of the base\<close>

lemma torch_pow_one: "\<forall>v\<in>set (data t). 0 \<le> v \<Longrightarrow> torch_pow t 1 = t"
  by (simp add: torch_pow_def tensor_map_def map_idI)

lemma base_bounds:
  "v \<in> set (data (add_scalar (torch_clamp x 0 1) gamma_eps)) \<Longrightarrow>
     gamma_eps \<le> v \<and> v \<le> 1 + gamma_eps"
  by (auto simp: add_scalar_def torch_clamp_def)

lemma torch_clamp_idem: "torch_clamp (torch_clamp x 0 1) 0 1 = torch_clamp x 0 1"
  by (simp add: torch_clamp_def tensor_map_def clamp_unit_idem)

text \<open>
  Claim C7. For every tensor \<open>x\<close>, gamma correction with exponent 1 returns
  \<open>clamp(x, 0, 1) + eps\<close> with \<open>eps = 1e-8\<close>, element by element: the base is at least
  \<open>eps\<close>, hence positive, and a positive real to the power 1 is itself. Elements are
  real numbers here, the arithmetic is exact.
\<close>

theorem C7_gamma_identity:
  "gamma_correction x 1 = add_scalar (torch_clamp x 0 1) gamma_eps"
proof -
  have "\<forall>v\<in>set (data (add_scalar (torch_clamp x 0 1) gamma_eps)). 0 \<le> v"
    using base_bounds gamma_eps_pos by fastforce
  then show ?thesis
    unfolding gamma_correction_def by (rule torch_pow_one)
qed

text \<open>
  Claim C10. For every real-valued tensor \<open>x\<close>, elements below 0 or above 1 included:
  gamma correction of \<open>x\<close> is gamma correction of \<open>clamp(x, 0, 1)\<close>; every element of the
  base handed to the power lies in \<open>[eps, 1 + eps]\<close> and is positive; and with the
  exponent 0.4 every element of the result lies between \<open>eps\<close> to the 0.4 and
  \<open>1 + eps\<close> to the 0.4, and is positive.
\<close>

theorem C10_gamma_base_positive:
  "gamma_correction x g = gamma_correction (torch_clamp x 0 1) g
   \<and> (\<forall>v\<in>set (data (add_scalar (torch_clamp x 0 1) gamma_eps)).
        gamma_eps \<le> v \<and> v \<le> 1 + gamma_eps \<and> 0 < v)
   \<and> (\<forall>v\<in>set (data (gamma_correction x (4 / 10))).
        gamma_eps powr (4 / 10) \<le> v \<and> v \<le> (1 + gamma_eps) powr (4 / 10) \<and> 0 < v)"
proof (intro conjI ballI)
  show "gamma_correction x g = gamma_correction (torch_clamp x 0 1) g"
    by (simp add: gamma_correction_def torch_clamp_idem)
next
  fix v assume v: "v \<in> set (data (add_scalar (torch_clamp x 0 1) gamma_eps))"
  from base_bounds[OF v] show "gamma_eps \<le> v" "v \<le> 1 + gamma_eps" by simp_all
  with gamma_eps_pos show "0 < v" by linarith
next
  fix v assume "v \<in> set (data (gamma_correction x (4 / 10)))"
  then obtain u where u: "u \<in> set (data (add_scalar (torch_clamp x 0 1) gamma_eps))"
    and v: "v = u powr (4 / 10)"
    by (auto simp: gamma_correction_def torch_pow_def)
  from base_bounds[OF u] have b: "gamma_eps \<le> u" "u \<le> 1 + gamma_eps" by simp_all
  have pos: "0 < u" using b gamma_eps_pos by linarith
  show "gamma_eps powr (4 / 10) \<le> v" unfolding v
    using b gamma_eps_pos by (intro powr_mono2) simp_all
  show "v \<le> (1 + gamma_eps) powr (4 / 10)" unfolding v
    using b pos by (intro powr_mono2) simp_all
  show "0 < v" unfolding v using pos by simp
qed

theorem C10_gamma_base_positive_witness:
  "(1 / 2 + gamma_eps) powr (4 / 10)
     \<in> set (data (gamma_correction \<lparr>shape = [3], data = [- 1, 1 / 2, 2]\<rparr> (4 / 10)))
   \<and> gamma_eps powr (4 / 10) \<le> (1 / 2 + gamma_eps) powr (4 / 10)
   \<and> (1 / 2 + gamma_eps) powr (4 / 10) \<le> (1 + gamma_eps) powr (4 / 10)
   \<and> 0 < (1 / 2 + gamma_eps) powr (4 / 10)
   \<and> 1 / 2 + gamma_eps
     \<in> set (data (add_scalar (torch_clamp \<lparr>shape = [3], data = [- 1, 1 / 2, 2]\<rparr> 0 1) gamma_eps))
   \<and> gamma_eps \<le> 1 / 2 + gamma_eps \<and> 1 / 2 + gamma_eps \<le> 1 + gamma_eps"
proof -
  let ?x = "\<lparr>shape = [3], data = [- 1, 1 / 2, 2::real]\<rparr>"
  have m: "(1 / 2 + gamma_eps) powr (4 / 10) \<in> set (data (gamma_correction ?x (4 / 10)))"
    by (simp add: gamma_correction_def torch_pow_def add_scalar_def torch_clamp_def)
  have b: "1 / 2 + gamma_eps \<in> set (data (add_scalar (torch_clamp ?x 0 1) gamma_eps))"
    by (simp add: add_scalar_def torch_clamp_def)
  from C10_gamma_base_positive[of ?x "4 / 10"] m b show ?thesis by auto
qed

section \<open>Construction of the attention block\<close>

text \<open>
  Claim C5. Constructing a \<open>MultiHeadSelfAttention\<close> whose \<open>embed_size\<close> is not evenly
  divisible by \<open>num_heads\<close> fails in the constructor itself, so no forward call is ever
  reached; with \<open>embed_size = 33\<close> and \<open>num_heads = 4\<close> the assertion fails, and with
  \<open>embed_size = 32\<close> and \<open>num_heads = 4\<close> construction succeeds with \<open>head_dim = 8\<close>.
\<close>

theorem C5_head_count_invariant:
  "(e mod h \<noteq> 0 \<longrightarrow> (\<exists>err. MultiHeadSelfAttention_init sd name e h = Inl err))
   \<and> MultiHeadSelfAttention_init sd name 33 4 = Inl AssertionError
   \<and> (\<exists>m. MultiHeadSelfAttention_init sd name 32 4 = Inr m
          \<and> embed_size m = 32 \<and> num_heads m = 4 \<and> head_dim m = 8)"
  by (simp add: MultiHeadSelfAttention_init_def Linear_init_def)

theorem C5_head_count_invariant_witness:
  "(34::int) mod 5 \<noteq> 0
   \<and> (\<exists>err. MultiHeadSelfAttention_init (\<lambda>_ _. 0) ''bottleneck'' 34 5 = Inl err)"
  using C5_head_count_invariant[of 34 5 "\<lambda>_ _. 0" "''bottleneck''"] by simp

section \<open>The range of the outputs\<close>




end
